theory Spec2Isabelle
  imports Complex_Main "HOL-Library.Word"
begin

section \<open>Utility class and functions\<close>

text \<open>
  The game of \<^verbatim>\<open>spaceinvaders.ts\<close> is a pure transition function folded over a
  stream of inputs. JavaScript numbers are modelled as follows: coordinates, sizes and
  velocities are \<open>real\<close> (the increment of the alien velocity is fractional); the
  counters \<open>level\<close>, \<open>score\<close>, \<open>ammo\<close> and \<open>ammoRegenTimer\<close> are \<open>int\<close>.
  Rounding of floating point numbers is not modelled. Strings are \<open>string\<close>.
\<close>

text \<open>\<^verbatim>\<open>class Vec2\<close>: an immutable two dimensional vector.\<close>

record Vec2 =
  x :: real
  y :: real

definition Vec2_abs :: "Vec2 \<Rightarrow> Vec2" where
  "Vec2_abs v = \<lparr>x = \<bar>x v\<bar>, y = \<bar>y v\<bar>\<rparr>"

definition Vec2_scale :: "Vec2 \<Rightarrow> real \<Rightarrow> Vec2" where
  "Vec2_scale v s = \<lparr>x = x v * s, y = y v * s\<rparr>"

definition Vec2_add :: "Vec2 \<Rightarrow> Vec2 \<Rightarrow> Vec2" where
  "Vec2_add v w = \<lparr>x = x v + x w, y = y v + y w\<rparr>"

text \<open>\<^verbatim>\<open>range(n)\<close> is the array \<open>[0..n-1]\<close>.\<close>

definition range_list :: "nat \<Rightarrow> nat list" where
  "range_list n = [0..<n]"

text \<open>\<^verbatim>\<open>cartesian(s, t)\<close>: a \<^verbatim>\<open>reduce\<close> over \<open>s\<close> that appends, for each of its
  elements, the pairs with every element of \<open>t\<close>.\<close>

definition cartesian :: "'a list \<Rightarrow> 'b list \<Rightarrow> ('a \<times> 'b) list" where
  "cartesian s t = foldl (\<lambda>acc se. acc @ map (\<lambda>te. (se, te)) t) [] s"

text \<open>
  \<^verbatim>\<open>simpleHash\<close>: the accumulator is a 32-bit integer. \<^verbatim>\<open>Math.imul\<close> multiplies
  modulo \<open>2^32\<close>, \<^verbatim>\<open>>>> 16\<close> is the unsigned shift and the final \<^verbatim>\<open>>>> 0\<close> reads the
  result as an unsigned number.
\<close>

definition simpleHash :: "string \<Rightarrow> nat" where
  "simpleHash s =
     (let hash = foldl (\<lambda>acc c. xor acc (of_char c) * 2654435761) (0xdeadbeef :: 32 word) s
      in unat (xor hash (drop_bit 16 hash)))"

text \<open>\<^verbatim>\<open>type Mouse\<close> is declared here, ahead of the other types: it shares the field
  name \<open>pos\<close> with \<open>Rectangle\<close>, and declared in this order \<open>pos\<close> stands for the field
  of a rectangle and \<open>Mouse.pos\<close> for that of the mouse.\<close>

record Mouse =
  pos :: Vec2

text \<open>\<^verbatim>\<open>interface Rectangle\<close>: every record that extends it can collide.\<close>

record Rectangle =
  pos :: Vec2
  width :: real
  height :: real

definition rectangleRectangleCollide ::
    "'a Rectangle_scheme \<Rightarrow> 'b Rectangle_scheme \<Rightarrow> bool" where
  "rectangleRectangleCollide r1 r2 =
     (x (pos r1) + width r1 > x (pos r2) \<and>
      x (pos r1) < x (pos r2) + width r2 \<and>
      y (pos r1) + height r1 > y (pos r2) \<and>
      y (pos r1) < y (pos r2) + height r2)"

section \<open>Types\<close>

text \<open>
  \<open>Player\<close> and \<open>Shield\<close> have exactly the fields of \<open>Rectangle\<close>. \<open>Alien\<close> adds a
  character; \<open>Bullet\<close> has every field of \<open>Alien\<close> and two more, so it is declared as
  its extension (the order of the fields plays no role here). A \<open>Character\<close> is a string
  at run time, and the field keeps whatever string the code stores in it.
\<close>

type_synonym Player = Rectangle

type_synonym Shield = Rectangle

type_synonym Character = string

record Alien = Rectangle +
  character :: Character

datatype BulletShooter = PLAYER | ALIEN

record Bullet = Alien +
  shooter :: BulletShooter
  vel :: Vec2

record Keyboard =
  key :: string

record Input =
  mouse :: "Mouse option"
  keyboard :: "Keyboard option"

record State =
  gameRunning :: bool
  level :: int
  player :: Player
  aliens :: "Alien list"
  alienVel :: Vec2
  bullets :: "Bullet list"
  shields :: "Shield list"
  score :: int
  ammo :: int
  ammoRegenTimer :: int
  message :: string

text \<open>
  What the program takes from its host: \<^verbatim>\<open>JSON.stringify\<close> on a state and on an
  alien (used only to seed \<open>simpleHash\<close>), and the horizontal position of the canvas on
  the screen, read from the document when the program starts.
\<close>

record Env =
  JSON_stringify_State :: "State \<Rightarrow> string"
  JSON_stringify_Alien :: "Alien \<Rightarrow> string"
  CANVAS_POS_X :: real

section \<open>Constants\<close>

definition FRAME_TIME :: int where "FRAME_TIME = 10"

definition ABC :: string where "ABC = ''ABCDEFGHIJKLMNOPQRSTUVWXYZ''"

definition CANVAS_WIDTH :: real where "CANVAS_WIDTH = 600"

definition PLAYER_POS_INIT :: Vec2 where "PLAYER_POS_INIT = \<lparr>x = 270, y = 540\<rparr>"
definition PLAYER_WIDTH :: real where "PLAYER_WIDTH = 48"
definition PLAYER_HEIGHT :: real where "PLAYER_HEIGHT = 32"

definition ALIEN_WIDTH :: real where "ALIEN_WIDTH = 24"
definition ALIEN_HEIGHT :: real where "ALIEN_HEIGHT = 20"
definition ALIEN_SPACING :: Vec2 where "ALIEN_SPACING = \<lparr>x = 64, y = 48\<rparr>"
definition ALIEN_DROP_AMOUNT :: real where "ALIEN_DROP_AMOUNT = 30"
definition ALIEN_ROWS :: nat where "ALIEN_ROWS = 4"
definition ALIEN_COLS :: nat where "ALIEN_COLS = 6"
definition ALIEN_POS_INIT :: Vec2 where "ALIEN_POS_INIT = \<lparr>x = 10, y = 10\<rparr>"
definition ALIEN_VEL_INIT :: Vec2 where "ALIEN_VEL_INIT = \<lparr>x = 1, y = 0\<rparr>"
definition ALIEN_VEL_INC :: Vec2 where "ALIEN_VEL_INC = \<lparr>x = 5 / 10, y = 1 / 10\<rparr>"
definition ALIEN_SHOOT_PROB :: real where "ALIEN_SHOOT_PROB = 1 / 1000"

definition BULLET_WIDTH :: real where "BULLET_WIDTH = 14"
definition BULLET_HEIGHT :: real where "BULLET_HEIGHT = 14"
definition BULLET_SPEED :: real where "BULLET_SPEED = 3"

definition SHIELD_COUNT :: nat where "SHIELD_COUNT = 4"
definition SHIELD_POS :: Vec2 where "SHIELD_POS = \<lparr>x = 0, y = 500\<rparr>"
definition SHIELD_SPACING :: real where "SHIELD_SPACING = 140"
definition SHIELD_WIDTH :: real where "SHIELD_WIDTH = 80"
definition SHIELD_HEIGHT :: real where "SHIELD_HEIGHT = 32"
definition SHIELD_HEIGHT_REDUCTION :: real where "SHIELD_HEIGHT_REDUCTION = 2"

definition SCORE_SHOOT_DECREMENT :: int where "SCORE_SHOOT_DECREMENT = 20"
definition SCORE_ALIEN_KILL :: int where "SCORE_ALIEN_KILL = 100"
definition SCORE_ALIEN_KILL_CHAR_MATCH :: int where "SCORE_ALIEN_KILL_CHAR_MATCH = 400"

definition AMMO_MAX :: int where "AMMO_MAX = 20"
definition AMMO_REGEN_AMOUNT :: int where "AMMO_REGEN_AMOUNT = 4"
definition AMMO_REGEN_TIMER :: int where "AMMO_REGEN_TIMER = 1000 div FRAME_TIME"

definition MESSAGE_INIT :: string where "MESSAGE_INIT = ''Press [Enter] to play.''"

text \<open>\<^verbatim>\<open>String(n)\<close> on an integer: its decimal digits, after a minus sign when negative.\<close>

fun String_nat :: "nat \<Rightarrow> string" where
  "String_nat n =
     (if n < 10 then [''0123456789'' ! n]
      else String_nat (n div 10) @ [''0123456789'' ! (n mod 10)])"

declare String_nat.simps [simp del]

definition String_int :: "int \<Rightarrow> string" where
  "String_int n = (if n < 0 then ''-'' @ String_nat (nat (- n)) else String_nat (nat n))"

definition MESSAGE_SCORE :: "int \<Rightarrow> string" where
  "MESSAGE_SCORE sc = ''Oh no. Score: '' @ String_int sc @ ''. '' @ MESSAGE_INIT"

text \<open>\<^verbatim>\<open>JSON.stringify([i, j])\<close> on two array indices.\<close>

definition JSON_stringify_pair :: "nat \<Rightarrow> nat \<Rightarrow> string" where
  "JSON_stringify_pair i j = ''['' @ String_nat i @ '','' @ String_nat j @ '']''"

text \<open>\<^verbatim>\<open>ABC[n % ABC.length]\<close>: the letter as a string of length one.\<close>

definition ABC_at :: "nat \<Rightarrow> Character" where
  "ABC_at n = [ABC ! (n mod length ABC)]"

definition INITIAL_STATE :: "string \<Rightarrow> State" where
  "INITIAL_STATE seed =
     \<lparr>gameRunning = False,
      level = 1,
      player = \<lparr>pos = PLAYER_POS_INIT, width = PLAYER_WIDTH, height = PLAYER_HEIGHT\<rparr>,
      aliens = map (\<lambda>(i, j).
          \<lparr>pos = \<lparr>x = x ALIEN_POS_INIT + real j * x ALIEN_SPACING,
                  y = y ALIEN_POS_INIT + real i * y ALIEN_SPACING\<rparr>,
           width = ALIEN_WIDTH,
           height = ALIEN_HEIGHT,
           character = ABC_at (simpleHash (seed @ JSON_stringify_pair i j))\<rparr>)
        (cartesian (range_list ALIEN_ROWS) (range_list ALIEN_COLS)),
      alienVel = ALIEN_VEL_INIT,
      bullets = [],
      shields = map (\<lambda>i.
          (let shieldGap = SHIELD_SPACING - SHIELD_WIDTH;
               totalShieldWidth = real SHIELD_COUNT * SHIELD_SPACING - shieldGap;
               OFFSET = CANVAS_WIDTH / 2 - totalShieldWidth / 2
           in \<lparr>pos = \<lparr>x = x SHIELD_POS + real i * SHIELD_SPACING + OFFSET, y = y SHIELD_POS\<rparr>,
               width = SHIELD_WIDTH,
               height = SHIELD_HEIGHT\<rparr>))
        (range_list SHIELD_COUNT),
      score = 0,
      ammo = AMMO_MAX,
      ammoRegenTimer = AMMO_REGEN_TIMER,
      message = MESSAGE_INIT\<rparr>"

section \<open>State transitions\<close>

text \<open>
  \<^verbatim>\<open>String.prototype.toUpperCase\<close> maps the letters \<open>a\<close> to \<open>z\<close> to \<open>A\<close> to \<open>Z\<close> and
  leaves every other character of the model's strings as it is (a character here is one
  byte: the characters of ASCII are modelled exactly, and none of the others up to code
  255 becomes a letter of \<open>ABC\<close> in JavaScript either). \<^verbatim>\<open>String.prototype.includes\<close>
  looks for its argument as a contiguous part of the string.
\<close>

definition abc :: string where "abc = ''abcdefghijklmnopqrstuvwxyz''"

definition toUpperCase_char :: "char \<Rightarrow> char" where
  "toUpperCase_char c =
     (case map_of (zip abc ABC) c of
        Some u \<Rightarrow> u
      | None \<Rightarrow> c)"

definition toUpperCase :: "string \<Rightarrow> string" where
  "toUpperCase s = map toUpperCase_char s"

fun includes_str :: "string \<Rightarrow> string \<Rightarrow> bool" where
  "includes_str [] t = (t = [])"
| "includes_str (c # cs) t = (take (length t) (c # cs) = t \<or> includes_str cs t)"

text \<open>\<^verbatim>\<open>playerShoot\<close> creates a bullet at the player's position and takes
  \<open>SCORE_SHOOT_DECREMENT\<close> from the score.\<close>

definition playerShoot :: "State \<Rightarrow> Input \<Rightarrow> State" where
  "playerShoot state input =
     (case keyboard input of
        None \<Rightarrow> state
      | Some kb \<Rightarrow>
          (let char = toUpperCase (key kb) in
           if \<not> includes_str ABC char then state
           else if ammo state \<le> 0 then state
           else
             (let bulletPosX = x (pos (player state)) + width (player state) / 2 - BULLET_WIDTH / 2;
                  bulletPosY = y (pos (player state));
                  bullet = \<lparr>pos = \<lparr>x = bulletPosX, y = bulletPosY\<rparr>,
                            width = BULLET_WIDTH,
                            height = BULLET_HEIGHT,
                            character = char,
                            shooter = PLAYER,
                            vel = \<lparr>x = 0, y = - BULLET_SPEED\<rparr>\<rparr>
              in state\<lparr>bullets := bullets state @ [bullet],
                       ammo := ammo state - 1,
                       score := score state - SCORE_SHOOT_DECREMENT\<rparr>)))"

text \<open>\<^verbatim>\<open>alienShoot\<close>: every alien whose hash, divided by \<open>2^32\<close>, is below
  \<open>ALIEN_SHOOT_PROB\<close> fires a bullet.\<close>

definition alienShoot :: "Env \<Rightarrow> State \<Rightarrow> Input \<Rightarrow> State" where
  "alienShoot env state input =
     (let shootingAliens = filter (\<lambda>alien.
            (let pseudoRandom =
                   real (simpleHash (JSON_stringify_State env state @ JSON_stringify_Alien env alien))
                     / 2 ^ 32
             in pseudoRandom < ALIEN_SHOOT_PROB)) (aliens state);
          alienBullets = map (\<lambda>alien.
            (let p = \<lparr>x = x (pos alien) + width alien - BULLET_WIDTH / 2,
                       y = y (pos alien) + height alien - BULLET_HEIGHT\<rparr>;
                 pseudoRandomInt =
                   simpleHash (JSON_stringify_State env state @ JSON_stringify_Alien env alien)
             in \<lparr>pos = p,
                 width = BULLET_WIDTH,
                 height = BULLET_HEIGHT,
                 character = ABC_at pseudoRandomInt,
                 shooter = ALIEN,
                 vel = \<lparr>x = 0, y = BULLET_SPEED\<rparr>\<rparr>)) shootingAliens
      in state\<lparr>bullets := bullets state @ alienBullets\<rparr>)"

text \<open>\<^verbatim>\<open>movePlayer\<close> follows the mouse and keeps the player within the canvas.\<close>

definition movePlayer :: "Env \<Rightarrow> State \<Rightarrow> Input \<Rightarrow> State" where
  "movePlayer env state input =
     (case mouse input of
        None \<Rightarrow> state
      | Some m \<Rightarrow>
          (let cursorX = x (Mouse.pos m) - CANVAS_POS_X env;
               playerPosX = min (max 0 (cursorX - width (player state) / 2))
                                (CANVAS_WIDTH - width (player state));
               player' = (player state)\<lparr>pos := \<lparr>x = playerPosX, y = y (pos (player state))\<rparr>\<rparr>
           in state\<lparr>player := player'\<rparr>))"

text \<open>\<^verbatim>\<open>moveAlien\<close> updates the aliens' positions and their shared velocity.\<close>

definition moveAlien :: "State \<Rightarrow> Input \<Rightarrow> State" where
  "moveAlien state input =
     (let (leftMost, rightMost) =
            foldl (\<lambda>(l, r) alien. (min l (x (pos alien)), max r (x (pos alien))))
              (CANVAS_WIDTH, 0) (aliens state);
          hitLeftWall = leftMost + x (alienVel state) < 0;
          hitRightWall = rightMost + ALIEN_WIDTH + x (alienVel state) > CANVAS_WIDTH;
          alienVel' = (if hitLeftWall \<or> hitRightWall
                       then \<lparr>x = - 1 * x (alienVel state), y = y (alienVel state)\<rparr>
                       else alienVel state);
          alienPosXOffset = (if hitLeftWall then 0 - leftMost
                             else if hitRightWall then CANVAS_WIDTH - ALIEN_WIDTH - rightMost
                             else x alienVel');
          aliens' = map (\<lambda>alien.
            (let alienPosX = x (pos alien) + alienPosXOffset;
                 alienPosY = (if hitLeftWall \<or> hitRightWall
                              then y (pos alien) + ALIEN_DROP_AMOUNT
                              else y (pos alien) + y alienVel')
             in alien\<lparr>pos := \<lparr>x = alienPosX, y = alienPosY\<rparr>\<rparr>)) (aliens state)
      in state\<lparr>aliens := aliens', alienVel := alienVel'\<rparr>)"

text \<open>\<^verbatim>\<open>moveBullet\<close> and \<^verbatim>\<open>removeBullet\<close>.\<close>

definition moveBullet :: "State \<Rightarrow> Input \<Rightarrow> State" where
  "moveBullet state input =
     state\<lparr>bullets := map (\<lambda>b. b\<lparr>pos := Vec2_add (pos b) (vel b)\<rparr>) (bullets state)\<rparr>"

definition removeBullet :: "State \<Rightarrow> Input \<Rightarrow> State" where
  "removeBullet state input =
     state\<lparr>bullets := filter (\<lambda>b. y (pos b) > 0) (bullets state)\<rparr>"

text \<open>The two collisions that end the game.\<close>

definition playerAlienCollision :: "State \<Rightarrow> Input \<Rightarrow> State" where
  "playerAlienCollision state input =
     (let collide = list_ex (\<lambda>a. rectangleRectangleCollide (player state) a) (aliens state)
      in if \<not> collide then state
         else state\<lparr>gameRunning := False, message := MESSAGE_SCORE (score state)\<rparr>)"

definition playerBulletCollision :: "State \<Rightarrow> Input \<Rightarrow> State" where
  "playerBulletCollision state input =
     (let collide = list_ex (\<lambda>b. shooter b \<noteq> PLAYER \<and>
                                 rectangleRectangleCollide (player state) b) (bullets state)
      in if \<not> collide then state
         else state\<lparr>gameRunning := False, message := MESSAGE_SCORE (score state)\<rparr>)"

text \<open>\<^verbatim>\<open>alienBulletCollision\<close> removes the aliens and bullets that collided and
  increments the score; the score is a \<^verbatim>\<open>reduce\<close> over the bullets inside a
  \<^verbatim>\<open>reduce\<close> over the aliens.\<close>

definition alienBulletCollision :: "State \<Rightarrow> Input \<Rightarrow> State" where
  "alienBulletCollision state input =
     (let aliens' = filter (\<lambda>a.
            \<not> list_ex (\<lambda>b. shooter b \<noteq> ALIEN \<and> rectangleRectangleCollide a b) (bullets state))
            (aliens state);
          bullets' = filter (\<lambda>b.
            \<not> list_ex (\<lambda>a. shooter b \<noteq> ALIEN \<and> rectangleRectangleCollide a b) (aliens state))
            (bullets state);
          score' = foldl (\<lambda>scoreA a.
            foldl (\<lambda>scoreB b.
              if shooter b \<noteq> ALIEN \<and> rectangleRectangleCollide a b
              then (if character a = character b
                    then scoreB + SCORE_ALIEN_KILL_CHAR_MATCH
                    else scoreB + SCORE_ALIEN_KILL)
              else scoreB) scoreA (bullets state)) (score state) (aliens state)
      in state\<lparr>aliens := aliens', bullets := bullets', score := score'\<rparr>)"

text \<open>\<^verbatim>\<open>shieldBulletCollision\<close> reduces the height of a shield for each bullet it
  collides with.\<close>

definition shieldBulletCollision :: "State \<Rightarrow> Input \<Rightarrow> State" where
  "shieldBulletCollision state input =
     (let reducedShields = map (\<lambda>s.
            (let players = foldl (\<lambda>acc b.
                   if rectangleRectangleCollide s b \<and> shooter b = PLAYER then acc + 1 else acc)
                   (0 :: real) (bullets state);
                 aliens' = foldl (\<lambda>acc b.
                   if rectangleRectangleCollide s b \<and> shooter b = ALIEN then acc + 1 else acc)
                   (0 :: real) (bullets state)
             in s\<lparr>pos := \<lparr>x = x (pos s), y = y (pos s) + aliens' * SHIELD_HEIGHT_REDUCTION\<rparr>,
                   height := height s - (players + aliens') * SHIELD_HEIGHT_REDUCTION\<rparr>))
            (shields state);
          shields' = filter (\<lambda>s. height s > 0) reducedShields;
          bullets' = filter (\<lambda>b.
            \<not> list_ex (\<lambda>s. rectangleRectangleCollide s b) (shields state)) (bullets state)
      in state\<lparr>shields := shields', bullets := bullets'\<rparr>)"

text \<open>\<^verbatim>\<open>noMoreAliens\<close> returns the state of a new level if there are no more aliens.\<close>

definition noMoreAliens :: "Env \<Rightarrow> State \<Rightarrow> Input \<Rightarrow> State" where
  "noMoreAliens env state input =
     (let aliensExists = list_ex (\<lambda>a.
            y (pos a) \<le> y (pos (player state)) + height (player state)) (aliens state)
      in if aliensExists then state
         else state\<lparr>level := level state + 1,
                    aliens := aliens (INITIAL_STATE (JSON_stringify_State env state)),
                    alienVel := Vec2_add (Vec2_abs (alienVel state)) ALIEN_VEL_INC\<rparr>)"

text \<open>\<^verbatim>\<open>ammoRegen\<close> increments the ammo by \<open>AMMO_REGEN_AMOUNT\<close>, but to no more than
  \<open>AMMO_MAX\<close>.\<close>

definition ammoRegen :: "State \<Rightarrow> Input \<Rightarrow> State" where
  "ammoRegen state input =
     (if ammoRegenTimer state > 0
      then state\<lparr>ammoRegenTimer := ammoRegenTimer state - 1\<rparr>
      else state\<lparr>ammo := min AMMO_MAX (ammo state + AMMO_REGEN_AMOUNT),
                 ammoRegenTimer := AMMO_REGEN_TIMER\<rparr>)"

text \<open>The stages of a frame, in the order in which \<^verbatim>\<open>transition\<close> applies them.\<close>

definition stages :: "Env \<Rightarrow> (State \<Rightarrow> Input \<Rightarrow> State) list" where
  "stages env =
     [playerShoot,
      alienShoot env,
      movePlayer env,
      moveAlien,
      moveBullet,
      removeBullet,
      playerAlienCollision,
      playerBulletCollision,
      alienBulletCollision,
      shieldBulletCollision,
      noMoreAliens env,
      ammoRegen]"

text \<open>\<^verbatim>\<open>transition\<close> returns the next state given some state and input. The test
  \<^verbatim>\<open>input.keyboard?.key === "Enter"\<close> fails when there is no keyboard sample.\<close>

definition transition :: "Env \<Rightarrow> State \<Rightarrow> Input \<Rightarrow> State" where
  "transition env state input =
     (if \<not> gameRunning state \<and> map_option key (keyboard input) = Some ''Enter''
      then (INITIAL_STATE (JSON_stringify_State env state))\<lparr>gameRunning := True\<rparr>
      else if \<not> gameRunning state then state
      else foldl (\<lambda>s t. t s input) state (stages env))"

text \<open>The program runs \<^verbatim>\<open>scan(transition, INITIAL_STATE(""))\<close> over the stream of inputs:
  the state after a finite sequence of inputs.\<close>

definition run :: "Env \<Rightarrow> Input list \<Rightarrow> State" where
  "run env inputs = foldl (transition env) (INITIAL_STATE '''') inputs"

section \<open>Notions used to state the properties\<close>

text \<open>The leftmost and the rightmost horizontal position among the aliens of a state.\<close>

definition leftMostX :: "State \<Rightarrow> real" where
  "leftMostX s = Min (set (map (\<lambda>a. x (pos a)) (aliens s)))"

definition rightMostX :: "State \<Rightarrow> real" where
  "rightMostX s = Max (set (map (\<lambda>a. x (pos a)) (aliens s)))"

text \<open>The state on which \<open>playerAlienCollision\<close> runs within a frame: the first six stages
  applied to the state the frame started from.\<close>

definition beforeCollisions :: "Env \<Rightarrow> State \<Rightarrow> Input \<Rightarrow> State" where
  "beforeCollisions env state input = foldl (\<lambda>s t. t s input) state (take 6 (stages env))"

text \<open>A bullet whose velocity is the one its shooter gives it.\<close>

definition bulletVelOk :: "Bullet \<Rightarrow> bool" where
  "bulletVelOk b =
     (vel b = (if shooter b = PLAYER then \<lparr>x = 0, y = - BULLET_SPEED\<rparr>
               else \<lparr>x = 0, y = BULLET_SPEED\<rparr>))"

text \<open>Every alien stands between the walls of the canvas.\<close>

definition withinCanvas :: "State \<Rightarrow> bool" where
  "withinCanvas s =
     list_all (\<lambda>a. 0 \<le> x (pos a) \<and> x (pos a) + ALIEN_WIDTH \<le> CANVAS_WIDTH)
       (aliens s)"

text \<open>
  Concrete inputs for the examples: a host whose canvas is at the left edge of the screen
  and whose serialisation is the empty string, an input with one key pressed, an input
  with nothing in it, an alien and a bullet of the standard size at a given position, and
  a running first-level state without shields, holding given aliens and bullets.
\<close>

definition exampleEnv :: Env where
  "exampleEnv =
     \<lparr>JSON_stringify_State = (\<lambda>s. ''''), JSON_stringify_Alien = (\<lambda>a. ''''), CANVAS_POS_X = 0\<rparr>"

definition keyInput :: "string \<Rightarrow> Input" where
  "keyInput k = \<lparr>mouse = None, keyboard = Some \<lparr>key = k\<rparr>\<rparr>"

definition noInput :: Input where
  "noInput = \<lparr>mouse = None, keyboard = None\<rparr>"

definition alienAt :: "real \<Rightarrow> real \<Rightarrow> Character \<Rightarrow> Alien" where
  "alienAt px py c =
     \<lparr>pos = \<lparr>x = px, y = py\<rparr>, width = ALIEN_WIDTH, height = ALIEN_HEIGHT, character = c\<rparr>"

definition bulletAt :: "BulletShooter \<Rightarrow> real \<Rightarrow> real \<Rightarrow> Character \<Rightarrow> Bullet" where
  "bulletAt sh px py c =
     \<lparr>pos = \<lparr>x = px, y = py\<rparr>, width = BULLET_WIDTH, height = BULLET_HEIGHT, character = c,
      shooter = sh,
      vel = \<lparr>x = 0, y = (if sh = PLAYER then - BULLET_SPEED else BULLET_SPEED)\<rparr>\<rparr>"

definition sceneWith :: "Alien list \<Rightarrow> Bullet list \<Rightarrow> State" where
  "sceneWith as bs =
     \<lparr>gameRunning = True,
      level = 1,
      player = \<lparr>pos = PLAYER_POS_INIT, width = PLAYER_WIDTH, height = PLAYER_HEIGHT\<rparr>,
      aliens = as,
      alienVel = ALIEN_VEL_INIT,
      bullets = bs,
      shields = [],
      score = 0,
      ammo = AMMO_MAX,
      ammoRegenTimer = AMMO_REGEN_TIMER,
      message = MESSAGE_INIT\<rparr>"

section \<open>Basic facts\<close>

lemmas const_defs = FRAME_TIME_def ABC_def CANVAS_WIDTH_def PLAYER_POS_INIT_def PLAYER_WIDTH_def
  PLAYER_HEIGHT_def ALIEN_WIDTH_def ALIEN_HEIGHT_def ALIEN_SPACING_def ALIEN_DROP_AMOUNT_def
  ALIEN_ROWS_def ALIEN_COLS_def ALIEN_POS_INIT_def ALIEN_VEL_INIT_def ALIEN_VEL_INC_def
  ALIEN_SHOOT_PROB_def BULLET_WIDTH_def BULLET_HEIGHT_def BULLET_SPEED_def SHIELD_COUNT_def
  SHIELD_POS_def SHIELD_SPACING_def SHIELD_WIDTH_def SHIELD_HEIGHT_def SHIELD_HEIGHT_REDUCTION_def
  SCORE_SHOOT_DECREMENT_def SCORE_ALIEN_KILL_def SCORE_ALIEN_KILL_CHAR_MATCH_def AMMO_MAX_def
  AMMO_REGEN_AMOUNT_def AMMO_REGEN_TIMER_def MESSAGE_INIT_def

lemma INITIAL_STATE_fields:
  "gameRunning (INITIAL_STATE seed) = False"
  "level (INITIAL_STATE seed) = 1"
  "bullets (INITIAL_STATE seed) = []"
  "score (INITIAL_STATE seed) = 0"
  "ammo (INITIAL_STATE seed) = AMMO_MAX"
  "ammoRegenTimer (INITIAL_STATE seed) = AMMO_REGEN_TIMER"
  "message (INITIAL_STATE seed) = MESSAGE_INIT"
  "alienVel (INITIAL_STATE seed) = ALIEN_VEL_INIT"
  "player (INITIAL_STATE seed) =
     \<lparr>pos = PLAYER_POS_INIT, width = PLAYER_WIDTH, height = PLAYER_HEIGHT\<rparr>"
  by (simp_all add: INITIAL_STATE_def)

lemma cartesian_concat: "cartesian s t = concat (map (\<lambda>se. map (\<lambda>te. (se, te)) t) s)"
proof -
  have "foldl (\<lambda>acc se. acc @ map (\<lambda>te. (se, te)) t) acc0 s =
          acc0 @ concat (map (\<lambda>se. map (\<lambda>te. (se, te)) t) s)" for acc0
    by (induction s arbitrary: acc0) simp_all
  then show ?thesis
    by (simp add: cartesian_def)
qed

lemma upt_0_4: "[0..<4] = [0, 1, 2, 3]"
  by (simp add: upt_rec)

lemma upt_0_6: "[0..<6] = [0, 1, 2, 3, 4, 5]"
  by (simp add: upt_rec)

lemma length_aliens_INITIAL_STATE: "length (aliens (INITIAL_STATE seed)) = 24"
  by (simp add: INITIAL_STATE_def cartesian_concat range_list_def ALIEN_ROWS_def ALIEN_COLS_def
      length_concat comp_def sum_list_triv)

lemma shields_INITIAL_STATE:
  "shields (INITIAL_STATE seed) =
     [\<lparr>pos = \<lparr>x = 50, y = 500\<rparr>, width = 80, height = 32\<rparr>,
      \<lparr>pos = \<lparr>x = 190, y = 500\<rparr>, width = 80, height = 32\<rparr>,
      \<lparr>pos = \<lparr>x = 330, y = 500\<rparr>, width = 80, height = 32\<rparr>,
      \<lparr>pos = \<lparr>x = 470, y = 500\<rparr>, width = 80, height = 32\<rparr>]"
  by (simp add: INITIAL_STATE_def range_list_def SHIELD_COUNT_def SHIELD_SPACING_def
      SHIELD_WIDTH_def SHIELD_HEIGHT_def SHIELD_POS_def CANVAS_WIDTH_def upt_0_4)

lemma sceneWith_fields:
  "gameRunning (sceneWith as bs) = True"
  "level (sceneWith as bs) = 1"
  "aliens (sceneWith as bs) = as"
  "bullets (sceneWith as bs) = bs"
  "score (sceneWith as bs) = 0"
  "ammo (sceneWith as bs) = 20"
  "ammoRegenTimer (sceneWith as bs) = 100"
  "message (sceneWith as bs) = MESSAGE_INIT"
  "alienVel (sceneWith as bs) = \<lparr>x = 1, y = 0\<rparr>"
  "shields (sceneWith as bs) = []"
  "player (sceneWith as bs) = \<lparr>pos = \<lparr>x = 270, y = 540\<rparr>, width = 48, height = 32\<rparr>"
  by (simp_all add: sceneWith_def const_defs)

lemma hash_empty: "simpleHash '''' = 3735904322"
  by (simp add: simpleHash_def)

text \<open>Every state the program reaches is a \<open>run\<close>; a property of all of them is proved
  for the initial state and across one transition, stage by stage.\<close>

lemma run_snoc: "run env (inputs @ [i]) = transition env (run env inputs) i"
  by (simp add: run_def)

lemma run_induct:
  assumes "P (INITIAL_STATE '''')" and "\<And>s i. P s \<Longrightarrow> P (transition env s i)"
  shows "P (run env inputs)"
  unfolding run_def using assms
  by (induction inputs rule: rev_induct) simp_all

lemma transition_cases:
  assumes "\<And>seed. P ((INITIAL_STATE seed)\<lparr>gameRunning := True\<rparr>)"
    and "P s"
    and "\<And>s. P s \<Longrightarrow> P (playerShoot s i)"
    and "\<And>s. P s \<Longrightarrow> P (alienShoot env s i)"
    and "\<And>s. P s \<Longrightarrow> P (movePlayer env s i)"
    and "\<And>s. P s \<Longrightarrow> P (moveAlien s i)"
    and "\<And>s. P s \<Longrightarrow> P (moveBullet s i)"
    and "\<And>s. P s \<Longrightarrow> P (removeBullet s i)"
    and "\<And>s. P s \<Longrightarrow> P (playerAlienCollision s i)"
    and "\<And>s. P s \<Longrightarrow> P (playerBulletCollision s i)"
    and "\<And>s. P s \<Longrightarrow> P (alienBulletCollision s i)"
    and "\<And>s. P s \<Longrightarrow> P (shieldBulletCollision s i)"
    and "\<And>s. P s \<Longrightarrow> P (noMoreAliens env s i)"
    and "\<And>s. P s \<Longrightarrow> P (ammoRegen s i)"
  shows "P (transition env s i)"
  using assms by (simp add: transition_def stages_def)

lemma transition_running:
  "gameRunning s \<Longrightarrow> transition env s i =
     ammoRegen (noMoreAliens env (shieldBulletCollision (alienBulletCollision
       (playerBulletCollision (playerAlienCollision (beforeCollisions env s i) i) i) i) i) i) i"
  by (simp add: transition_def stages_def beforeCollisions_def)

text \<open>Which fields each stage leaves alone.\<close>

lemma ammo_frame:
  "ammo (alienShoot env s i) = ammo s"
  "ammo (movePlayer env s i) = ammo s"
  "ammo (moveAlien s i) = ammo s"
  "ammo (moveBullet s i) = ammo s"
  "ammo (removeBullet s i) = ammo s"
  "ammo (playerAlienCollision s i) = ammo s"
  "ammo (playerBulletCollision s i) = ammo s"
  "ammo (alienBulletCollision s i) = ammo s"
  "ammo (shieldBulletCollision s i) = ammo s"
  "ammo (noMoreAliens env s i) = ammo s"
  by (simp_all add: alienShoot_def movePlayer_def moveAlien_def moveBullet_def removeBullet_def
      playerAlienCollision_def playerBulletCollision_def alienBulletCollision_def
      shieldBulletCollision_def noMoreAliens_def Let_def split: option.splits prod.splits)

lemma timer_frame:
  "ammoRegenTimer (playerShoot s i) = ammoRegenTimer s"
  "ammoRegenTimer (alienShoot env s i) = ammoRegenTimer s"
  "ammoRegenTimer (movePlayer env s i) = ammoRegenTimer s"
  "ammoRegenTimer (moveAlien s i) = ammoRegenTimer s"
  "ammoRegenTimer (moveBullet s i) = ammoRegenTimer s"
  "ammoRegenTimer (removeBullet s i) = ammoRegenTimer s"
  "ammoRegenTimer (playerAlienCollision s i) = ammoRegenTimer s"
  "ammoRegenTimer (playerBulletCollision s i) = ammoRegenTimer s"
  "ammoRegenTimer (alienBulletCollision s i) = ammoRegenTimer s"
  "ammoRegenTimer (shieldBulletCollision s i) = ammoRegenTimer s"
  "ammoRegenTimer (noMoreAliens env s i) = ammoRegenTimer s"
  by (simp_all add: playerShoot_def alienShoot_def movePlayer_def moveAlien_def moveBullet_def
      removeBullet_def playerAlienCollision_def playerBulletCollision_def alienBulletCollision_def
      shieldBulletCollision_def noMoreAliens_def Let_def split: option.splits prod.splits)

lemma shields_frame:
  "shields (playerShoot s i) = shields s"
  "shields (alienShoot env s i) = shields s"
  "shields (movePlayer env s i) = shields s"
  "shields (moveAlien s i) = shields s"
  "shields (moveBullet s i) = shields s"
  "shields (removeBullet s i) = shields s"
  "shields (playerAlienCollision s i) = shields s"
  "shields (playerBulletCollision s i) = shields s"
  "shields (alienBulletCollision s i) = shields s"
  "shields (noMoreAliens env s i) = shields s"
  "shields (ammoRegen s i) = shields s"
  by (simp_all add: playerShoot_def alienShoot_def movePlayer_def moveAlien_def moveBullet_def
      removeBullet_def playerAlienCollision_def playerBulletCollision_def alienBulletCollision_def
      noMoreAliens_def ammoRegen_def Let_def split: option.splits prod.splits)

lemma bullets_frame:
  "bullets (movePlayer env s i) = bullets s"
  "bullets (moveAlien s i) = bullets s"
  "bullets (playerAlienCollision s i) = bullets s"
  "bullets (playerBulletCollision s i) = bullets s"
  "bullets (noMoreAliens env s i) = bullets s"
  "bullets (ammoRegen s i) = bullets s"
  by (simp_all add: movePlayer_def moveAlien_def playerAlienCollision_def playerBulletCollision_def
      noMoreAliens_def ammoRegen_def Let_def split: option.splits prod.splits)

lemma aliens_frame:
  "aliens (playerAlienCollision s i) = aliens s"
  "aliens (playerBulletCollision s i) = aliens s"
  by (simp_all add: playerAlienCollision_def playerBulletCollision_def Let_def)

lemma score_frame:
  "score (alienShoot env s i) = score s"
  "score (movePlayer env s i) = score s"
  "score (moveAlien s i) = score s"
  "score (moveBullet s i) = score s"
  "score (removeBullet s i) = score s"
  "score (shieldBulletCollision s i) = score s"
  "score (noMoreAliens env s i) = score s"
  "score (ammoRegen s i) = score s"
  by (simp_all add: alienShoot_def movePlayer_def moveAlien_def moveBullet_def removeBullet_def
      shieldBulletCollision_def noMoreAliens_def ammoRegen_def
      Let_def split: option.splits prod.splits)

lemma over_frame:
  "gameRunning (alienBulletCollision s i) = gameRunning s"
  "gameRunning (shieldBulletCollision s i) = gameRunning s"
  "gameRunning (noMoreAliens env s i) = gameRunning s"
  "gameRunning (ammoRegen s i) = gameRunning s"
  "message (alienBulletCollision s i) = message s"
  "message (shieldBulletCollision s i) = message s"
  "message (noMoreAliens env s i) = message s"
  "message (ammoRegen s i) = message s"
  by (simp_all add: alienBulletCollision_def shieldBulletCollision_def noMoreAliens_def
      ammoRegen_def Let_def)

section \<open>Concrete frames used by the examples\<close>

lemma toUpperCase_A: "toUpperCase ''A'' = ''A''" "toUpperCase ''a'' = ''A''"
  by (simp_all add: toUpperCase_def toUpperCase_char_def ABC_def abc_def)

lemma includes_A: "includes_str ABC ''A''"
  by (simp add: ABC_def)

lemma run_enter:
  "run exampleEnv [keyInput ''Enter''] = (INITIAL_STATE '''')\<lparr>gameRunning := True\<rparr>"
  by (simp add: run_def transition_def keyInput_def INITIAL_STATE_fields exampleEnv_def)

text \<open>The start key, then the key \<open>a\<close>: the player's bullet is in flight and one round
  of ammo is spent.\<close>

lemma run_enter_a:
  "bullets (run exampleEnv [keyInput ''Enter'', keyInput ''a'']) = [bulletAt PLAYER 287 537 ''A'']"
  "ammo (run exampleEnv [keyInput ''Enter'', keyInput ''a'']) = 19"
proof -
  let ?s = "(INITIAL_STATE '''')\<lparr>gameRunning := True\<rparr>"
  have r: "run exampleEnv [keyInput ''Enter'', keyInput ''a''] =
      transition exampleEnv ?s (keyInput ''a'')"
    using run_snoc[of exampleEnv "[keyInput ''Enter'']" "keyInput ''a''"] by (simp add: run_enter)
  have p: "playerShoot ?s (keyInput ''a'') =
      ?s\<lparr>bullets := [bulletAt PLAYER 287 540 ''A''], ammo := 19, score := - 20\<rparr>"
    by (simp add: playerShoot_def keyInput_def toUpperCase_A includes_A INITIAL_STATE_fields Let_def
        bulletAt_def const_defs)
  have a: "alienShoot exampleEnv s i = s" for s i
    by (simp add: alienShoot_def exampleEnv_def hash_empty ALIEN_SHOOT_PROB_def)
  have m: "movePlayer env s (keyInput k) = s" for env s k
    by (simp add: movePlayer_def keyInput_def)
  have b: "beforeCollisions exampleEnv ?s (keyInput ''a'') =
     moveAlien (?s\<lparr>bullets := [bulletAt PLAYER 287 537 ''A''], ammo := 19, score := - 20\<rparr>)
       (keyInput ''a'')"
    by (simp add: beforeCollisions_def stages_def p a m moveBullet_def removeBullet_def
        moveAlien_def bulletAt_def Vec2_add_def BULLET_SPEED_def Let_def split: prod.splits)
  show "bullets (run exampleEnv [keyInput ''Enter'', keyInput ''a'']) =
      [bulletAt PLAYER 287 537 ''A'']"
    unfolding r transition_running[of ?s, simplified] b
    apply (simp add: bullets_frame)
    apply (simp add: shieldBulletCollision_def alienBulletCollision_def bullets_frame
        shields_frame aliens_frame Let_def)
    apply (simp add: shields_INITIAL_STATE bulletAt_def rectangleRectangleCollide_def const_defs)
    apply (simp add: moveAlien_def Let_def split: prod.splits)
    apply (simp add: INITIAL_STATE_def cartesian_concat range_list_def upt_0_4 upt_0_6 const_defs)
    done
  show "ammo (run exampleEnv [keyInput ''Enter'', keyInput ''a'']) = 19"
    unfolding r transition_running[of ?s, simplified] b
    by (simp add: ammo_frame timer_frame ammoRegen_def INITIAL_STATE_fields AMMO_REGEN_TIMER_def
        FRAME_TIME_def)
qed

section \<open>Invariants of the reachable states\<close>

subsection \<open>Ammo bounds\<close>

lemma ammo_playerShoot:
  "0 \<le> ammo s \<Longrightarrow> ammo s \<le> AMMO_MAX \<Longrightarrow>
   0 \<le> ammo (playerShoot s i) \<and> ammo (playerShoot s i) \<le> AMMO_MAX"
  by (simp add: playerShoot_def Let_def split: option.splits)

lemma ammo_ammoRegen:
  "0 \<le> ammo s \<Longrightarrow> ammo s \<le> AMMO_MAX \<Longrightarrow>
   0 \<le> ammo (ammoRegen s i) \<and> ammo (ammoRegen s i) \<le> AMMO_MAX"
  by (simp add: ammoRegen_def AMMO_MAX_def AMMO_REGEN_AMOUNT_def)

text \<open>
  Claim C6. In every state reached from \<open>INITIAL_STATE ''''\<close> by transitions on any inputs,
  \<open>0 \<le> ammo \<le> AMMO_MAX\<close>. In particular \<open>playerShoot\<close> never takes a non-negative ammo
  below \<open>0\<close>, and \<open>ammoRegen\<close> never raises an ammo within the maximum above it.
\<close>

theorem ammo_bounds:
  "0 \<le> ammo (run env inputs) \<and> ammo (run env inputs) \<le> AMMO_MAX \<and>
   (0 \<le> ammo s \<longrightarrow> 0 \<le> ammo (playerShoot s i)) \<and>
   (ammo t \<le> AMMO_MAX \<longrightarrow> ammo (ammoRegen t j) \<le> AMMO_MAX)"
proof -
  let ?P = "\<lambda>s. 0 \<le> ammo s \<and> ammo s \<le> AMMO_MAX"
  have init: "?P (INITIAL_STATE '''')"
    by (simp add: INITIAL_STATE_fields AMMO_MAX_def)
  have step: "?P (transition env s i)" if "?P s" for s i
  proof (rule transition_cases[where P = ?P])
    show "?P ((INITIAL_STATE seed)\<lparr>gameRunning := True\<rparr>)" for seed
      by (simp add: INITIAL_STATE_fields AMMO_MAX_def)
    show "?P s" by (rule that)
  qed (simp_all add: ammo_frame ammo_playerShoot ammo_ammoRegen)
  have "?P (run env inputs)"
    by (rule run_induct[where P = ?P]) (use init step in blast)+
  moreover have "0 \<le> ammo s \<Longrightarrow> 0 \<le> ammo (playerShoot s i)"
    by (simp add: playerShoot_def Let_def split: option.splits)
  moreover have "ammo t \<le> AMMO_MAX \<Longrightarrow> ammo (ammoRegen t j) \<le> AMMO_MAX"
    by (simp add: ammoRegen_def)
  ultimately show ?thesis
    by blast
qed

text \<open>After the start key and one shot the ammo is 19; shooting on an empty magazine and
  regenerating from 19 stay within the bounds.\<close>

theorem ammo_bounds_witness:
  "0 \<le> ammo (run exampleEnv [keyInput ''Enter'', keyInput ''a'']) \<and>
   ammo (run exampleEnv [keyInput ''Enter'', keyInput ''a'']) \<le> AMMO_MAX \<and>
   ammo (run exampleEnv [keyInput ''Enter'', keyInput ''a'']) = 19 \<and>
   0 \<le> ammo (playerShoot ((sceneWith [] [])\<lparr>ammo := 0\<rparr>) (keyInput ''A'')) \<and>
   ammo (ammoRegen ((sceneWith [] [])\<lparr>ammo := 19, ammoRegenTimer := 0\<rparr>) noInput) \<le> AMMO_MAX"
  using ammo_bounds[of exampleEnv "[keyInput ''Enter'', keyInput ''a'']"
      "(sceneWith [] [])\<lparr>ammo := 0\<rparr>" "keyInput ''A''"
      "(sceneWith [] [])\<lparr>ammo := 19, ammoRegenTimer := 0\<rparr>" noInput]
  by (simp add: run_enter_a AMMO_MAX_def)

subsection \<open>Shield height\<close>

lemma shields_shieldBulletCollision:
  "sh \<in> set (shields (shieldBulletCollision s i)) \<Longrightarrow> 0 < height sh"
  by (auto simp add: shieldBulletCollision_def Let_def)

text \<open>
  Claim C7. In every state reached from \<open>INITIAL_STATE ''''\<close> by transitions on any inputs,
  every shield of the collection has a height above \<open>0\<close>; and whatever the state,
  \<open>shieldBulletCollision\<close> leaves no shield of height zero or less behind, so such a
  shield is gone within the frame in which it was hit.
\<close>

theorem shield_height_positive:
  "(\<forall>sh \<in> set (shields (run env inputs)). 0 < height sh) \<and>
   (\<forall>sh \<in> set (shields (shieldBulletCollision s i)). 0 < height sh)"
proof -
  let ?P = "\<lambda>s. \<forall>sh \<in> set (shields s). 0 < height sh"
  have init: "?P (INITIAL_STATE seed)" for seed
    by (simp add: shields_INITIAL_STATE)
  have step: "?P (transition env s i)" if "?P s" for s i
  proof (rule transition_cases[where P = ?P])
    show "?P ((INITIAL_STATE seed)\<lparr>gameRunning := True\<rparr>)" for seed
      using init[of seed] by simp
    show "?P s" by (rule that)
    show "?P (shieldBulletCollision s i)" for s
      using shields_shieldBulletCollision by blast
  qed (simp_all add: shields_frame)
  have "?P (run env inputs)"
    by (rule run_induct[where P = ?P]) (use init step in blast)+
  then show ?thesis
    using shields_shieldBulletCollision by blast
qed

text \<open>The four shields of a started game have height 32; a shield of height 2 that a bullet
  hits is removed.\<close>

theorem shield_height_positive_witness:
  "map height (shields (run exampleEnv [keyInput ''Enter''])) = [32, 32, 32, 32] \<and>
   shields (shieldBulletCollision
     ((sceneWith [] [bulletAt PLAYER 60 495 ''A''])
        \<lparr>shields := [\<lparr>pos = \<lparr>x = 50, y = 500\<rparr>, width = 80, height = 2\<rparr>]\<rparr>) noInput) = []"
  using shield_height_positive[of exampleEnv "[keyInput ''Enter'']"
      "(sceneWith [] [bulletAt PLAYER 60 495 ''A''])
        \<lparr>shields := [\<lparr>pos = \<lparr>x = 50, y = 500\<rparr>, width = 80, height = 2\<rparr>]\<rparr>" noInput]
  by (simp add: run_enter shields_INITIAL_STATE shieldBulletCollision_def sceneWith_fields
      bulletAt_def rectangleRectangleCollide_def const_defs)

subsection \<open>Bullet velocities\<close>

lemma bullets_subset:
  "set (bullets (removeBullet s i)) \<subseteq> set (bullets s)"
  "set (bullets (alienBulletCollision s i)) \<subseteq> set (bullets s)"
  "set (bullets (shieldBulletCollision s i)) \<subseteq> set (bullets s)"
  by (auto simp add: removeBullet_def alienBulletCollision_def shieldBulletCollision_def Let_def)

lemma bulletVelOk_playerShoot:
  "list_all bulletVelOk (bullets s) \<Longrightarrow> list_all bulletVelOk (bullets (playerShoot s i))"
  by (simp add: playerShoot_def Let_def bulletVelOk_def split: option.splits)

lemma bulletVelOk_alienShoot:
  "list_all bulletVelOk (bullets s) \<Longrightarrow> list_all bulletVelOk (bullets (alienShoot env s i))"
  by (auto simp add: alienShoot_def Let_def bulletVelOk_def list_all_iff)

lemma bulletVelOk_moveBullet:
  "list_all bulletVelOk (bullets s) \<Longrightarrow> list_all bulletVelOk (bullets (moveBullet s i))"
  by (simp add: moveBullet_def bulletVelOk_def list_all_iff)

lemma bulletVelOk_run: "list_all bulletVelOk (bullets (run env inputs))"
proof -
  let ?P = "\<lambda>s. list_all bulletVelOk (bullets s)"
  have sub: "?P t" if "set (bullets t) \<subseteq> set (bullets s)" "?P s" for s t
    using that by (auto simp add: list_all_iff)
  have step: "?P (transition env s i)" if "?P s" for s i
  proof (rule transition_cases[where P = ?P])
    show "?P ((INITIAL_STATE seed)\<lparr>gameRunning := True\<rparr>)" for seed
      by (simp add: INITIAL_STATE_fields)
    show "?P s" by (rule that)
    show "?P s \<Longrightarrow> ?P (removeBullet s i)" for s
      using sub bullets_subset(1) by blast
    show "?P s \<Longrightarrow> ?P (alienBulletCollision s i)" for s
      using sub bullets_subset(2) by blast
    show "?P s \<Longrightarrow> ?P (shieldBulletCollision s i)" for s
      using sub bullets_subset(3) by blast
  qed (simp_all add: bullets_frame bulletVelOk_playerShoot bulletVelOk_alienShoot
        bulletVelOk_moveBullet)
  show ?thesis
    by (rule run_induct[where P = ?P]) (use step in \<open>simp_all add: INITIAL_STATE_fields\<close>)
qed

text \<open>How each stage treats the bullets it finds: the shooting stages append to them, the
  removing stages filter them, \<open>moveBullet\<close> changes positions only, and the other stages
  do not touch them.\<close>

lemma bullets_appended:
  "\<exists>new. bullets (playerShoot s i) = bullets s @ new"
  "\<exists>new. bullets (alienShoot env s i) = bullets s @ new"
  by (simp_all add: playerShoot_def alienShoot_def Let_def split: option.splits)

lemma bullets_filtered:
  "\<exists>keep. bullets (removeBullet s i) = filter keep (bullets s)"
  "\<exists>keep. bullets (alienBulletCollision s i) = filter keep (bullets s)"
  "\<exists>keep. bullets (shieldBulletCollision s i) = filter keep (bullets s)"
  unfolding removeBullet_def alienBulletCollision_def shieldBulletCollision_def Let_def
  by (simp_all, blast+)

lemma moveBullet_vel:
  "map vel (bullets (moveBullet s i)) = map vel (bullets s)"
  "map shooter (bullets (moveBullet s i)) = map shooter (bullets s)"
  by (simp_all add: moveBullet_def)

text \<open>
  Claim C10. In every state reached from \<open>INITIAL_STATE ''''\<close> by transitions on any inputs,
  a bullet shot by the player has velocity \<open>(0, - BULLET_SPEED)\<close> and a bullet shot by an
  alien has velocity \<open>(0, BULLET_SPEED)\<close>. No stage changes the velocity or the shooter of
  a bullet it finds: \<open>moveBullet\<close> keeps both, the shooting stages only append bullets, the
  removing stages only filter them and the remaining stages leave the bullets as they are.
  So in a reachable state \<open>moveBullet\<close> keeps every bullet's horizontal position: bullets
  travel on vertical lines.
\<close>

theorem bullet_velocity_vertical:
  "(\<forall>b \<in> set (bullets (run env inputs)).
      (shooter b = PLAYER \<longrightarrow> vel b = \<lparr>x = 0, y = - BULLET_SPEED\<rparr>) \<and>
      (shooter b = ALIEN \<longrightarrow> vel b = \<lparr>x = 0, y = BULLET_SPEED\<rparr>)) \<and>
   map vel (bullets (moveBullet s i)) = map vel (bullets s) \<and>
   map shooter (bullets (moveBullet s i)) = map shooter (bullets s) \<and>
   (\<exists>new. bullets (playerShoot s i) = bullets s @ new) \<and>
   (\<exists>new. bullets (alienShoot env s i) = bullets s @ new) \<and>
   (\<exists>keep. bullets (removeBullet s i) = filter keep (bullets s)) \<and>
   (\<exists>keep. bullets (alienBulletCollision s i) = filter keep (bullets s)) \<and>
   (\<exists>keep. bullets (shieldBulletCollision s i) = filter keep (bullets s)) \<and>
   bullets (movePlayer env s i) = bullets s \<and>
   bullets (moveAlien s i) = bullets s \<and>
   bullets (playerAlienCollision s i) = bullets s \<and>
   bullets (playerBulletCollision s i) = bullets s \<and>
   bullets (noMoreAliens env s i) = bullets s \<and>
   bullets (ammoRegen s i) = bullets s \<and>
   map (\<lambda>b. x (pos b)) (bullets (moveBullet (run env inputs) j)) =
     map (\<lambda>b. x (pos b)) (bullets (run env inputs))"
proof -
  have inv: "bulletVelOk b" if "b \<in> set (bullets (run env inputs))" for b
    using bulletVelOk_run[of env inputs] that by (simp add: list_all_iff)
  have vels: "\<forall>b \<in> set (bullets (run env inputs)).
      (shooter b = PLAYER \<longrightarrow> vel b = \<lparr>x = 0, y = - BULLET_SPEED\<rparr>) \<and>
      (shooter b = ALIEN \<longrightarrow> vel b = \<lparr>x = 0, y = BULLET_SPEED\<rparr>)"
    using inv by (auto simp add: bulletVelOk_def)
  have "x (pos b) + x (vel b) = x (pos b)" if "b \<in> set (bullets (run env inputs))" for b
    using inv[OF that] by (auto simp add: bulletVelOk_def split: if_splits)
  then have straight: "map (\<lambda>b. x (pos b)) (bullets (moveBullet (run env inputs) j)) =
     map (\<lambda>b. x (pos b)) (bullets (run env inputs))"
    by (simp add: moveBullet_def Vec2_add_def)
  show ?thesis
    using vels straight
    by (simp add: bullets_frame moveBullet_vel bullets_appended bullets_filtered)
qed

text \<open>After the start key and the key \<open>a\<close> the one bullet in flight is the player's, and it
  moves straight up.\<close>

theorem bullet_velocity_vertical_witness:
  "bullets (run exampleEnv [keyInput ''Enter'', keyInput ''a'']) = [bulletAt PLAYER 287 537 ''A''] \<and>
   shooter (bulletAt PLAYER 287 537 ''A'') = PLAYER \<and>
   vel (bulletAt PLAYER 287 537 ''A'') = \<lparr>x = 0, y = - BULLET_SPEED\<rparr> \<and>
   map (\<lambda>b. x (pos b))
     (bullets (moveBullet (run exampleEnv [keyInput ''Enter'', keyInput ''a'']) noInput)) = [287]"
  using bullet_velocity_vertical[of exampleEnv "[keyInput ''Enter'', keyInput ''a'']"
      "sceneWith [] []" noInput noInput]
  by (simp add: run_enter_a bulletAt_def)

section \<open>The stopped game\<close>

text \<open>
  Claim C8. While the game is not running: when the input carries the key \<open>Enter\<close>,
  \<open>transition\<close> returns the world initialised from the serialisation of the current state,
  with \<open>gameRunning\<close> set (level 1, score 0, full ammo, no bullets); on any other input,
  among them an input without a keyboard sample, it returns the state as it is.
\<close>

theorem transition_stopped:
  assumes "\<not> gameRunning s"
  shows "(keyboard i = Some kb \<and> key kb = ''Enter'' \<longrightarrow>
            transition env s i =
              (INITIAL_STATE (JSON_stringify_State env s))\<lparr>gameRunning := True\<rparr> \<and>
            gameRunning (transition env s i) \<and>
            level (transition env s i) = 1 \<and>
            score (transition env s i) = 0 \<and>
            ammo (transition env s i) = AMMO_MAX \<and>
            bullets (transition env s i) = []) \<and>
         (keyboard i = None \<or> (\<exists>k. keyboard i = Some k \<and> key k \<noteq> ''Enter'') \<longrightarrow>
            transition env s i = s)"
  using assms by (auto simp add: transition_def INITIAL_STATE_fields)

text \<open>The initial world starts on \<open>Enter\<close> and ignores no input and the key \<open>A\<close>.\<close>

theorem transition_stopped_witness:
  "transition exampleEnv (INITIAL_STATE '''') (keyInput ''Enter'') =
     (INITIAL_STATE '''')\<lparr>gameRunning := True\<rparr> \<and>
   transition exampleEnv (INITIAL_STATE '''') noInput = INITIAL_STATE '''' \<and>
   transition exampleEnv (INITIAL_STATE '''') (keyInput ''A'') = INITIAL_STATE ''''"
  using transition_stopped[of "INITIAL_STATE ''''" "keyInput ''Enter''" "\<lparr>key = ''Enter''\<rparr>" exampleEnv]
    transition_stopped[of "INITIAL_STATE ''''" noInput _ exampleEnv]
    transition_stopped[of "INITIAL_STATE ''''" "keyInput ''A''" _ exampleEnv]
  by (simp add: INITIAL_STATE_fields keyInput_def noInput_def exampleEnv_def)

section \<open>The stage \<open>noMoreAliens\<close>\<close>

text \<open>
  Claim C1, as the code has it. \<open>noMoreAliens\<close> returns its state unchanged when some alien
  is at or above the player's bottom edge (\<open>pos.y \<le> player.pos.y + player.height\<close>).
  When every alien is past that edge it is not a no-op: as with no alien left, the level
  goes up by one, the aliens are replaced by those of a new initial world and the velocity
  by its absolute value plus the increment.
\<close>

theorem noMoreAliens_gate:
  "((\<exists>a \<in> set (aliens s). y (pos a) \<le> y (pos (player s)) + height (player s)) \<longrightarrow>
      noMoreAliens env s i = s) \<and>
   ((\<forall>a \<in> set (aliens s). y (pos a) > y (pos (player s)) + height (player s)) \<longrightarrow>
      noMoreAliens env s i =
        s\<lparr>level := level s + 1,
          aliens := aliens (INITIAL_STATE (JSON_stringify_State env s)),
          alienVel := Vec2_add (Vec2_abs (alienVel s)) ALIEN_VEL_INC\<rparr> \<and>
      level (noMoreAliens env s i) \<noteq> level s)"
proof (intro conjI impI)
  assume "\<exists>a \<in> set (aliens s). y (pos a) \<le> y (pos (player s)) + height (player s)"
  then have "list_ex (\<lambda>a. y (pos a) \<le> y (pos (player s)) + height (player s)) (aliens s)"
    by (simp add: list_ex_iff)
  then show "noMoreAliens env s i = s"
    by (simp add: noMoreAliens_def)
next
  assume "\<forall>a \<in> set (aliens s). y (pos a) > y (pos (player s)) + height (player s)"
  then have no: "\<not> list_ex (\<lambda>a. y (pos a) \<le> y (pos (player s)) + height (player s)) (aliens s)"
    by (auto simp add: list_ex_iff)
  then show "noMoreAliens env s i =
        s\<lparr>level := level s + 1,
          aliens := aliens (INITIAL_STATE (JSON_stringify_State env s)),
          alienVel := Vec2_add (Vec2_abs (alienVel s)) ALIEN_VEL_INC\<rparr>"
    by (simp add: noMoreAliens_def)
  from no show "level (noMoreAliens env s i) \<noteq> level s"
    by (simp add: noMoreAliens_def)
qed

text \<open>An alien at height 100 holds the level; an alien at 573, one below the player's bottom
  edge at 572, lets it advance.\<close>

theorem noMoreAliens_gate_witness:
  "noMoreAliens exampleEnv (sceneWith [alienAt 100 100 ''A''] []) noInput =
     sceneWith [alienAt 100 100 ''A''] [] \<and>
   level (noMoreAliens exampleEnv (sceneWith [alienAt 100 573 ''A''] []) noInput) = 2 \<and>
   alienVel (noMoreAliens exampleEnv (sceneWith [alienAt 100 573 ''A''] []) noInput) =
     \<lparr>x = 3 / 2, y = 1 / 10\<rparr>"
  using noMoreAliens_gate[of "sceneWith [alienAt 100 100 ''A''] []" exampleEnv noInput]
    noMoreAliens_gate[of "sceneWith [alienAt 100 573 ''A''] []" exampleEnv noInput]
  by (simp add: sceneWith_fields alienAt_def Vec2_add_def Vec2_abs_def ALIEN_VEL_INC_def)

text \<open>Claim C1 as the specification states it fails: a running state whose only alien is at
  height 580, past the player's bottom edge at 572, is taken to level 2 with a new grid of
  24 aliens.\<close>

theorem noMoreAliens_past_player_counterexample:
  "gameRunning (sceneWith [alienAt 100 580 ''A''] []) \<and>
   aliens (sceneWith [alienAt 100 580 ''A''] []) \<noteq> [] \<and>
   list_all (\<lambda>a. y (pos a) > y (pos (player (sceneWith [alienAt 100 580 ''A''] []))) +
                   height (player (sceneWith [alienAt 100 580 ''A''] [])))
     (aliens (sceneWith [alienAt 100 580 ''A''] [])) \<and>
   noMoreAliens exampleEnv (sceneWith [alienAt 100 580 ''A''] []) noInput \<noteq>
     sceneWith [alienAt 100 580 ''A''] [] \<and>
   level (noMoreAliens exampleEnv (sceneWith [alienAt 100 580 ''A''] []) noInput) = 2 \<and>
   length (aliens (noMoreAliens exampleEnv (sceneWith [alienAt 100 580 ''A''] []) noInput)) = 24"
proof -
  have l: "level (noMoreAliens exampleEnv (sceneWith [alienAt 100 580 ''A''] []) noInput) = 2"
    by (simp add: noMoreAliens_def sceneWith_fields alienAt_def)
  then have "noMoreAliens exampleEnv (sceneWith [alienAt 100 580 ''A''] []) noInput \<noteq>
     sceneWith [alienAt 100 580 ''A''] []"
    by (auto simp add: sceneWith_fields)
  moreover have
    "length (aliens (noMoreAliens exampleEnv (sceneWith [alienAt 100 580 ''A''] []) noInput)) = 24"
    by (simp add: noMoreAliens_def sceneWith_fields alienAt_def length_aliens_INITIAL_STATE)
  ultimately show ?thesis
    using l by (simp add: sceneWith_fields alienAt_def)
qed

text \<open>
  Claim C9. When no alien is left, \<open>noMoreAliens\<close> raises the level by exactly one, replaces
  the aliens by those of the initial world seeded with the serialisation of the current
  state (a full grid of \<open>ALIEN_ROWS\<close> by \<open>ALIEN_COLS\<close> aliens at the initial positions) and
  replaces the velocity by its componentwise absolute value plus \<open>ALIEN_VEL_INC\<close>; every
  other field is kept. Both components grow in absolute value, and so does the length of
  the velocity.
\<close>

theorem noMoreAliens_level_up:
  assumes "aliens s = []"
  shows "noMoreAliens env s i =
           s\<lparr>level := level s + 1,
             aliens := aliens (INITIAL_STATE (JSON_stringify_State env s)),
             alienVel := Vec2_add (Vec2_abs (alienVel s)) ALIEN_VEL_INC\<rparr> \<and>
         level (noMoreAliens env s i) = level s + 1 \<and>
         length (aliens (noMoreAliens env s i)) = ALIEN_ROWS * ALIEN_COLS \<and>
         map (\<lambda>a. (x (pos a), y (pos a), width a, height a)) (aliens (noMoreAliens env s i)) =
           map (\<lambda>(r, c). (x ALIEN_POS_INIT + real c * x ALIEN_SPACING,
                            y ALIEN_POS_INIT + real r * y ALIEN_SPACING,
                            ALIEN_WIDTH, ALIEN_HEIGHT))
             (List.product [0..<ALIEN_ROWS] [0..<ALIEN_COLS]) \<and>
         x (alienVel (noMoreAliens env s i)) = \<bar>x (alienVel s)\<bar> + 1 / 2 \<and>
         y (alienVel (noMoreAliens env s i)) = \<bar>y (alienVel s)\<bar> + 1 / 10 \<and>
         \<bar>x (alienVel (noMoreAliens env s i))\<bar> > \<bar>x (alienVel s)\<bar> \<and>
         \<bar>y (alienVel (noMoreAliens env s i))\<bar> > \<bar>y (alienVel s)\<bar> \<and>
         (x (alienVel (noMoreAliens env s i)))\<^sup>2 + (y (alienVel (noMoreAliens env s i)))\<^sup>2 >
           (x (alienVel s))\<^sup>2 + (y (alienVel s))\<^sup>2"
proof -
  have eq: "noMoreAliens env s i =
           s\<lparr>level := level s + 1,
             aliens := aliens (INITIAL_STATE (JSON_stringify_State env s)),
             alienVel := Vec2_add (Vec2_abs (alienVel s)) ALIEN_VEL_INC\<rparr>"
    using assms by (simp add: noMoreAliens_def)
  have vx: "x (alienVel (noMoreAliens env s i)) = \<bar>x (alienVel s)\<bar> + 1 / 2"
    and vy: "y (alienVel (noMoreAliens env s i)) = \<bar>y (alienVel s)\<bar> + 1 / 10"
    by (simp_all add: eq Vec2_add_def Vec2_abs_def ALIEN_VEL_INC_def)
  have grid: "map (\<lambda>a. (x (pos a), y (pos a), width a, height a)) (aliens (INITIAL_STATE seed)) =
           map (\<lambda>(r, c). (x ALIEN_POS_INIT + real c * x ALIEN_SPACING,
                            y ALIEN_POS_INIT + real r * y ALIEN_SPACING,
                            ALIEN_WIDTH, ALIEN_HEIGHT))
             (List.product [0..<ALIEN_ROWS] [0..<ALIEN_COLS])" for seed
    by (simp add: INITIAL_STATE_def cartesian_concat range_list_def product_concat_map comp_def
        case_prod_beta)
  have sq: "(\<bar>v\<bar> + d)\<^sup>2 > v\<^sup>2" if "0 < d" for v d :: real
  proof -
    have "(\<bar>v\<bar> + d)\<^sup>2 = v\<^sup>2 + d\<^sup>2 + 2 * \<bar>v\<bar> * d"
      by (simp add: power2_sum)
    moreover have "0 < d\<^sup>2" and "0 \<le> 2 * \<bar>v\<bar> * d"
      using that by simp_all
    ultimately show ?thesis by linarith
  qed
  have sqx: "(\<bar>x (alienVel s)\<bar> + 1 / 2)\<^sup>2 > (x (alienVel s))\<^sup>2"
    by (rule sq) simp
  have sqy: "(\<bar>y (alienVel s)\<bar> + 1 / 10)\<^sup>2 > (y (alienVel s))\<^sup>2"
    by (rule sq) simp
  show ?thesis
    unfolding vx vy using eq sqx sqy
    by (simp add: length_aliens_INITIAL_STATE grid ALIEN_ROWS_def ALIEN_COLS_def)
qed

text \<open>A first-level state without aliens goes to level 2 with 24 aliens and the velocity
  \<open>(3/2, 1/10)\<close>.\<close>

theorem noMoreAliens_level_up_witness:
  "aliens (sceneWith [] []) = [] \<and>
   level (noMoreAliens exampleEnv (sceneWith [] []) noInput) = 2 \<and>
   length (aliens (noMoreAliens exampleEnv (sceneWith [] []) noInput)) = 24 \<and>
   alienVel (noMoreAliens exampleEnv (sceneWith [] []) noInput) = \<lparr>x = 3 / 2, y = 1 / 10\<rparr>"
proof -
  have h: "aliens (sceneWith [] []) = []"
    by (simp add: sceneWith_fields)
  show ?thesis
    using noMoreAliens_level_up[OF h, of exampleEnv noInput] h
    by (simp add: sceneWith_fields const_defs Vec2_add_def Vec2_abs_def
        length_aliens_INITIAL_STATE)
qed

section \<open>The stage \<open>playerShoot\<close>\<close>













section \<open>The stage \<open>alienBulletCollision\<close>\<close>

lemma foldl_cond_add:
  "foldl (\<lambda>acc b. if P b then (if Q b then acc + m else acc + k) else acc) acc0 bs =
     acc0 + (\<Sum>b\<leftarrow>bs. if P b then (if Q b then m else k) else 0)"
  for acc0 :: int
  by (induction bs arbitrary: acc0) simp_all

lemma foldl_add_sum:
  "foldl (\<lambda>acc a. acc + f a) acc0 as = acc0 + (\<Sum>a\<leftarrow>as. f a)"
  for acc0 :: int
  by (induction as arbitrary: acc0) simp_all

text \<open>
  Claim C5. \<open>alienBulletCollision\<close> removes exactly the aliens that overlap some bullet not
  shot by an alien, removes exactly the bullets not shot by an alien that overlap some
  alien, and adds to the score, for every pair of an alien and a bullet not shot by an
  alien whose rectangles overlap, \<open>SCORE_ALIEN_KILL_CHAR_MATCH\<close> when their characters are
  equal and \<open>SCORE_ALIEN_KILL\<close> otherwise. All three are computed from the aliens and
  bullets of the state the stage receives, so a bullet that overlaps several aliens scores
  for each of them. The other fields are kept.
\<close>

theorem alienBulletCollision_snapshot:
  "alienBulletCollision s i =
     s\<lparr>aliens := filter (\<lambda>a. \<not> (\<exists>b \<in> set (bullets s).
                          shooter b \<noteq> ALIEN \<and> rectangleRectangleCollide a b)) (aliens s),
       bullets := filter (\<lambda>b. \<not> (shooter b \<noteq> ALIEN \<and>
                          (\<exists>a \<in> set (aliens s). rectangleRectangleCollide a b))) (bullets s),
       score := score s +
         (\<Sum>a\<leftarrow>aliens s. \<Sum>b\<leftarrow>bullets s.
            if shooter b \<noteq> ALIEN \<and> rectangleRectangleCollide a b
            then (if character a = character b then SCORE_ALIEN_KILL_CHAR_MATCH
                  else SCORE_ALIEN_KILL)
            else 0)\<rparr>"
proof -
  have sc: "foldl (\<lambda>scoreA a.
            foldl (\<lambda>scoreB b.
              if shooter b \<noteq> ALIEN \<and> rectangleRectangleCollide a b
              then (if character a = character b
                    then scoreB + SCORE_ALIEN_KILL_CHAR_MATCH
                    else scoreB + SCORE_ALIEN_KILL)
              else scoreB) scoreA (bullets s)) (score s) (aliens s) =
        score s + (\<Sum>a\<leftarrow>aliens s. \<Sum>b\<leftarrow>bullets s.
            if shooter b \<noteq> ALIEN \<and> rectangleRectangleCollide a b
            then (if character a = character b then SCORE_ALIEN_KILL_CHAR_MATCH
                  else SCORE_ALIEN_KILL)
            else 0)"
    by (simp only: foldl_cond_add foldl_add_sum)
  have bl: "filter (\<lambda>b. \<not> list_ex (\<lambda>a. shooter b \<noteq> ALIEN \<and> rectangleRectangleCollide a b)
                (aliens s)) (bullets s) =
      filter (\<lambda>b. \<not> (shooter b \<noteq> ALIEN \<and>
                (\<exists>a \<in> set (aliens s). rectangleRectangleCollide a b))) (bullets s)"
    by (rule filter_cong) (auto simp add: list_ex_iff)
  have al: "filter (\<lambda>a. \<not> list_ex (\<lambda>b. shooter b \<noteq> ALIEN \<and> rectangleRectangleCollide a b)
                (bullets s)) (aliens s) =
      filter (\<lambda>a. \<not> (\<exists>b \<in> set (bullets s).
                shooter b \<noteq> ALIEN \<and> rectangleRectangleCollide a b)) (aliens s)"
    by (simp add: list_ex_iff)
  show ?thesis
    unfolding alienBulletCollision_def Let_def sc bl al ..
qed

text \<open>One player bullet tagged \<open>A\<close> over an alien \<open>A\<close> and an alien \<open>B\<close>: both aliens and the
  bullet go, the score rises by 400 + 100; the alien's own bullet over the third alien
  removes nothing.\<close>

theorem alienBulletCollision_snapshot_witness:
  "alienBulletCollision
     (sceneWith [alienAt 100 100 ''A'', alienAt 110 100 ''B'', alienAt 300 100 ''C'']
        [bulletAt PLAYER 105 105 ''A'', bulletAt ALIEN 305 105 ''C'']) noInput =
   (sceneWith [alienAt 300 100 ''C''] [bulletAt ALIEN 305 105 ''C''])\<lparr>score := 500\<rparr>"
  using alienBulletCollision_snapshot[of
      "sceneWith [alienAt 100 100 ''A'', alienAt 110 100 ''B'', alienAt 300 100 ''C'']
        [bulletAt PLAYER 105 105 ''A'', bulletAt ALIEN 305 105 ''C'']" noInput]
  by (simp add: sceneWith_def alienAt_def bulletAt_def rectangleRectangleCollide_def const_defs)

section \<open>The stage \<open>moveAlien\<close>\<close>

lemma foldl_min_max:
  "foldl (\<lambda>(l, r) a. (min l (f a), max r (f a))) (l0, r0) as =
     (Min (insert l0 (f ` set as)), Max (insert r0 (f ` set as)))"
  for f :: "'a \<Rightarrow> real"
proof (induction as arbitrary: l0 r0)
  case Nil
  show ?case by simp
next
  case (Cons a as)
  have "Min (insert (min l0 (f a)) (f ` set as)) = Min (insert l0 (insert (f a) (f ` set as)))"
    by (cases "as = []") (simp_all add: min.assoc)
  moreover have
    "Max (insert (max r0 (f a)) (f ` set as)) = Max (insert r0 (insert (f a) (f ` set as)))"
    by (cases "as = []") (simp_all add: max.assoc)
  ultimately show ?case
    using Cons.IH[of "min l0 (f a)" "max r0 (f a)"] by simp
qed

text \<open>The \<^verbatim>\<open>reduce\<close> of \<open>moveAlien\<close> starts from \<open>(CANVAS_WIDTH, 0)\<close>: it finds the
  leftmost and rightmost positions when they lie on the proper side of these two values.\<close>

lemma moveAlien_extremes:
  assumes "aliens s \<noteq> []" "leftMostX s \<le> CANVAS_WIDTH" "0 \<le> rightMostX s"
  shows "foldl (\<lambda>(l, r) alien. (min l (x (pos alien)), max r (x (pos alien))))
              (CANVAS_WIDTH, 0) (aliens s) = (leftMostX s, rightMostX s)"
proof -
  let ?S = "(\<lambda>a. x (pos a)) ` set (aliens s)"
  have ne: "?S \<noteq> {}" and fin: "finite ?S" using assms(1) by simp_all
  have "Min (insert CANVAS_WIDTH ?S) = Min ?S"
    using ne fin assms(2) by (simp add: leftMostX_def min_absorb2)
  moreover have "Max (insert 0 ?S) = Max ?S"
    using ne fin assms(3) by (simp add: rightMostX_def max_absorb2)
  ultimately show ?thesis
    by (simp add: foldl_min_max leftMostX_def rightMostX_def)
qed

lemma Min_Max_shift:
  fixes S :: "real set"
  assumes "finite S" "S \<noteq> {}"
  shows "Min ((\<lambda>v. v + d) ` S) = Min S + d" "Max ((\<lambda>v. v + d) ` S) = Max S + d"
proof -
  have m: "mono (\<lambda>v::real. v + d)" by (simp add: mono_def)
  show "Min ((\<lambda>v. v + d) ` S) = Min S + d"
    using mono_Min_commute[OF m assms] by simp
  show "Max ((\<lambda>v. v + d) ` S) = Max S + d"
    using mono_Max_commute[OF m assms] by simp
qed

text \<open>In a state reached from the initial one the aliens stand between the walls: the
  initial grid does, \<open>moveAlien\<close> keeps them there, and no other stage moves an alien.\<close>

lemma aliens_unchanged:
  "aliens (playerShoot s i) = aliens s"
  "aliens (alienShoot env s i) = aliens s"
  "aliens (movePlayer env s i) = aliens s"
  "aliens (moveBullet s i) = aliens s"
  "aliens (removeBullet s i) = aliens s"
  "aliens (shieldBulletCollision s i) = aliens s"
  "aliens (ammoRegen s i) = aliens s"
  by (simp_all add: playerShoot_def alienShoot_def movePlayer_def moveBullet_def removeBullet_def
      shieldBulletCollision_def ammoRegen_def Let_def split: option.splits)

lemma aliens_x_INITIAL_STATE:
  "map (\<lambda>a. x (pos a)) (aliens (INITIAL_STATE seed)) =
    [10, 74, 138, 202, 266, 330, 10, 74, 138, 202, 266, 330,
     10, 74, 138, 202, 266, 330, 10, 74, 138, 202, 266, 330]"
  by (simp add: INITIAL_STATE_def cartesian_concat range_list_def upt_0_4 upt_0_6 const_defs)

lemma withinCanvas_INITIAL_STATE:
  "withinCanvas (INITIAL_STATE seed)"
  "withinCanvas ((INITIAL_STATE seed)\<lparr>gameRunning := g\<rparr>)"
proof -
  have "list_all (\<lambda>v. 0 \<le> v \<and> v + ALIEN_WIDTH \<le> CANVAS_WIDTH)
          (map (\<lambda>a. x (pos a)) (aliens (INITIAL_STATE seed)))"
    unfolding aliens_x_INITIAL_STATE by (simp add: ALIEN_WIDTH_def CANVAS_WIDTH_def)
  then show "withinCanvas (INITIAL_STATE seed)"
    and "withinCanvas ((INITIAL_STATE seed)\<lparr>gameRunning := g\<rparr>)"
    by (simp_all add: withinCanvas_def list_all_iff)
qed

lemma extremes_bounds:
  assumes "aliens s \<noteq> []" "withinCanvas s"
  shows "0 \<le> leftMostX s" "rightMostX s + ALIEN_WIDTH \<le> CANVAS_WIDTH"
    "leftMostX s \<le> rightMostX s"
    "\<And>a. a \<in> set (aliens s) \<Longrightarrow> leftMostX s \<le> x (pos a) \<and> x (pos a) \<le> rightMostX s"
proof -
  let ?S = "set (map (\<lambda>a. x (pos a)) (aliens s))"
  have fin: "finite ?S" and ne: "?S \<noteq> {}" using assms(1) by simp_all
  have "Min ?S \<in> ?S" "Max ?S \<in> ?S"
    using fin ne by (rule Min_in, rule Max_in)
  then show "0 \<le> leftMostX s" "rightMostX s + ALIEN_WIDTH \<le> CANVAS_WIDTH"
    using assms(2) by (auto simp add: withinCanvas_def list_all_iff leftMostX_def rightMostX_def)
  show b: "leftMostX s \<le> x (pos a) \<and> x (pos a) \<le> rightMostX s" if "a \<in> set (aliens s)" for a
    using that fin by (simp add: leftMostX_def rightMostX_def)
  from assms(1) obtain a where "a \<in> set (aliens s)" by (cases "aliens s") auto
  from b[OF this] show "leftMostX s \<le> rightMostX s" by simp
qed

lemma withinCanvas_moveAlien:
  assumes "withinCanvas s"
  shows "withinCanvas (moveAlien s i)"
proof (cases "aliens s = []")
  case True
  then show ?thesis
    by (simp add: withinCanvas_def moveAlien_def Let_def split: prod.splits)
next
  case False
  note b = extremes_bounds[OF False assms]
  have w: "ALIEN_WIDTH = 24" "CANVAS_WIDTH = 600"
    by (simp_all add: ALIEN_WIDTH_def CANVAS_WIDTH_def)
  have pre: "leftMostX s \<le> CANVAS_WIDTH" "0 \<le> rightMostX s"
    using b(1,2,3) by (simp_all add: w)
  note ext = moveAlien_extremes[OF False pre]
  show ?thesis
    unfolding withinCanvas_def list_all_iff
  proof
    fix a' assume "a' \<in> set (aliens (moveAlien s i))"
    then obtain a where a: "a \<in> set (aliens s)"
      and a': "x (pos a') = x (pos a) +
         (if leftMostX s + x (alienVel s) < 0 then 0 - leftMostX s
          else if rightMostX s + ALIEN_WIDTH + x (alienVel s) > CANVAS_WIDTH
               then CANVAS_WIDTH - ALIEN_WIDTH - rightMostX s
               else x (alienVel s))"
      by (auto simp add: moveAlien_def ext Let_def)
    from b(4)[OF a] b(1,2) show "0 \<le> x (pos a') \<and> x (pos a') + ALIEN_WIDTH \<le> CANVAS_WIDTH"
      unfolding a' by (auto simp add: w)
  qed
qed

lemma withinCanvas_run: "withinCanvas (run env inputs)"
proof -
  have sub: "withinCanvas t" if "set (aliens t) \<subseteq> set (aliens s)" "withinCanvas s" for s t
    using that by (auto simp add: withinCanvas_def list_all_iff)
  have same: "withinCanvas t" if "aliens t = aliens s" "withinCanvas s" for s t
    using that by (simp add: withinCanvas_def)
  have step: "withinCanvas (transition env s i)" if "withinCanvas s" for s i
  proof (rule transition_cases[where P = withinCanvas])
    show "withinCanvas ((INITIAL_STATE seed)\<lparr>gameRunning := True\<rparr>)" for seed
      by (rule withinCanvas_INITIAL_STATE(2))
    show "withinCanvas s" by (rule that)
    show "withinCanvas s \<Longrightarrow> withinCanvas (moveAlien s i)" for s
      by (rule withinCanvas_moveAlien)
    show "withinCanvas s \<Longrightarrow> withinCanvas (alienBulletCollision s i)" for s
      by (rule sub[of _ s]) (auto simp add: alienBulletCollision_def Let_def)
    show "withinCanvas s \<Longrightarrow> withinCanvas (noMoreAliens env s i)" for s
      using withinCanvas_INITIAL_STATE(1)[of "JSON_stringify_State env s"]
      by (auto simp add: noMoreAliens_def Let_def withinCanvas_def)
  qed (simp_all add: same aliens_unchanged aliens_frame)
  show ?thesis
    by (rule run_induct[where P = withinCanvas])
      (use step withinCanvas_INITIAL_STATE(1) in simp_all)
qed

text \<open>What \<open>moveAlien\<close> does to aliens that stand between the walls.\<close>

lemma moveAlien_within:
  assumes "aliens s \<noteq> []" and "withinCanvas s"
  shows
   "foldl (\<lambda>(l, r) alien. (min l (x (pos alien)), max r (x (pos alien))))
      (CANVAS_WIDTH, 0) (aliens s) = (leftMostX s, rightMostX s) \<and>
    \<not> (leftMostX s + x (alienVel s) < 0 \<and>
       rightMostX s + ALIEN_WIDTH + x (alienVel s) > CANVAS_WIDTH) \<and>
    (leftMostX s + x (alienVel s) < 0 \<longrightarrow>
       moveAlien s i =
         s\<lparr>aliens := map (\<lambda>a. a\<lparr>pos := \<lparr>x = x (pos a) + (0 - leftMostX s),
                                        y = y (pos a) + ALIEN_DROP_AMOUNT\<rparr>\<rparr>) (aliens s),
           alienVel := \<lparr>x = - x (alienVel s), y = y (alienVel s)\<rparr>\<rparr> \<and>
       leftMostX (moveAlien s i) = 0) \<and>
    (rightMostX s + ALIEN_WIDTH + x (alienVel s) > CANVAS_WIDTH \<longrightarrow>
       moveAlien s i =
         s\<lparr>aliens := map (\<lambda>a. a\<lparr>pos := \<lparr>x = x (pos a) +
                                          (CANVAS_WIDTH - ALIEN_WIDTH - rightMostX s),
                                        y = y (pos a) + ALIEN_DROP_AMOUNT\<rparr>\<rparr>) (aliens s),
           alienVel := \<lparr>x = - x (alienVel s), y = y (alienVel s)\<rparr>\<rparr> \<and>
       rightMostX (moveAlien s i) + ALIEN_WIDTH = CANVAS_WIDTH) \<and>
    (\<not> leftMostX s + x (alienVel s) < 0 \<and>
     \<not> rightMostX s + ALIEN_WIDTH + x (alienVel s) > CANVAS_WIDTH \<longrightarrow>
       moveAlien s i =
         s\<lparr>aliens := map (\<lambda>a. a\<lparr>pos := Vec2_add (pos a) (alienVel s)\<rparr>) (aliens s)\<rparr>)"
proof -
  let ?L = "leftMostX s" and ?R = "rightMostX s"
  let ?hitL = "?L + x (alienVel s) < 0"
  let ?hitR = "?R + ALIEN_WIDTH + x (alienVel s) > CANVAS_WIDTH"
  let ?S = "(\<lambda>a. x (pos a)) ` set (aliens s)"
  have ne: "?S \<noteq> {}" and fin: "finite ?S" using assms(1) by simp_all
  note b = extremes_bounds[OF assms]
  have w: "ALIEN_WIDTH = 24" "CANVAS_WIDTH = 600"
    by (simp_all add: ALIEN_WIDTH_def CANVAS_WIDTH_def)
  have pre: "?L \<le> CANVAS_WIDTH" "0 \<le> ?R"
    using b(1,2,3) by (simp_all add: w)
  note ext = moveAlien_extremes[OF assms(1) pre]
  have excl: "\<not> (?hitL \<and> ?hitR)"
    using b(1,2) by (simp add: w)
  have shifted:
    "leftMostX (s\<lparr>aliens := map (\<lambda>a. a\<lparr>pos := \<lparr>x = x (pos a) + d, y = y (pos a) + e\<rparr>\<rparr>)
                              (aliens s), alienVel := v\<rparr>) = ?L + d"
    "rightMostX (s\<lparr>aliens := map (\<lambda>a. a\<lparr>pos := \<lparr>x = x (pos a) + d, y = y (pos a) + e\<rparr>\<rparr>)
                               (aliens s), alienVel := v\<rparr>) = ?R + d"
    for d e v
    using Min_Max_shift[OF fin ne, of d] by (simp_all add: leftMostX_def rightMostX_def image_image)
  have hitL: "moveAlien s i =
         s\<lparr>aliens := map (\<lambda>a. a\<lparr>pos := \<lparr>x = x (pos a) + (0 - ?L),
                                        y = y (pos a) + ALIEN_DROP_AMOUNT\<rparr>\<rparr>) (aliens s),
           alienVel := \<lparr>x = - x (alienVel s), y = y (alienVel s)\<rparr>\<rparr>" if ?hitL
    using that by (simp add: moveAlien_def ext Let_def)
  have hitR: "moveAlien s i =
         s\<lparr>aliens := map (\<lambda>a. a\<lparr>pos := \<lparr>x = x (pos a) + (CANVAS_WIDTH - ALIEN_WIDTH - ?R),
                                        y = y (pos a) + ALIEN_DROP_AMOUNT\<rparr>\<rparr>) (aliens s),
           alienVel := \<lparr>x = - x (alienVel s), y = y (alienVel s)\<rparr>\<rparr>" if ?hitR
    using that excl by (simp add: moveAlien_def ext Let_def)
  have nohit: "moveAlien s i =
        s\<lparr>aliens := map (\<lambda>a. a\<lparr>pos := Vec2_add (pos a) (alienVel s)\<rparr>) (aliens s)\<rparr>"
    if "\<not> ?hitL" "\<not> ?hitR"
    using that by (simp add: moveAlien_def ext Let_def Vec2_add_def)
  have edgeL: "leftMostX (moveAlien s i) = 0" if ?hitL
    unfolding hitL[OF that] shifted by simp
  have edgeR: "rightMostX (moveAlien s i) + ALIEN_WIDTH = CANVAS_WIDTH" if ?hitR
    unfolding hitR[OF that] shifted by simp
  show ?thesis
    using ext excl hitL hitR nohit edgeL edgeR by blast
qed

text \<open>
  Claim C4. Take a state with at least one alien that the program can be in: a state
  reached from \<open>INITIAL_STATE ''''\<close> by transitions on any inputs or, more generally, any state
  whose aliens stand between the walls. There \<open>moveAlien\<close> computes the leftmost and the
  rightmost horizontal position of the aliens. If moving by the velocity would take the
  leftmost alien below \<open>0\<close>, or the rightmost alien plus \<open>ALIEN_WIDTH\<close> above \<open>CANVAS_WIDTH\<close>
  (never both), it negates the horizontal velocity, shifts every alien horizontally by
  one and the same offset, after which the leftmost alien is at \<open>0\<close>, or the rightmost alien
  plus \<open>ALIEN_WIDTH\<close> at \<open>CANVAS_WIDTH\<close>, and moves every alien down by \<open>ALIEN_DROP_AMOUNT\<close>
  instead of by the velocity. Otherwise every alien moves by the velocity, which stays as
  it is. Nothing else changes.
\<close>

theorem moveAlien_bounce:
  assumes "aliens s \<noteq> []" and "s = run env inputs \<or> withinCanvas s"
  shows
   "foldl (\<lambda>(l, r) alien. (min l (x (pos alien)), max r (x (pos alien))))
      (CANVAS_WIDTH, 0) (aliens s) = (leftMostX s, rightMostX s) \<and>
    \<not> (leftMostX s + x (alienVel s) < 0 \<and>
       rightMostX s + ALIEN_WIDTH + x (alienVel s) > CANVAS_WIDTH) \<and>
    (leftMostX s + x (alienVel s) < 0 \<longrightarrow>
       moveAlien s i =
         s\<lparr>aliens := map (\<lambda>a. a\<lparr>pos := \<lparr>x = x (pos a) + (0 - leftMostX s),
                                        y = y (pos a) + ALIEN_DROP_AMOUNT\<rparr>\<rparr>) (aliens s),
           alienVel := \<lparr>x = - x (alienVel s), y = y (alienVel s)\<rparr>\<rparr> \<and>
       leftMostX (moveAlien s i) = 0) \<and>
    (rightMostX s + ALIEN_WIDTH + x (alienVel s) > CANVAS_WIDTH \<longrightarrow>
       moveAlien s i =
         s\<lparr>aliens := map (\<lambda>a. a\<lparr>pos := \<lparr>x = x (pos a) +
                                          (CANVAS_WIDTH - ALIEN_WIDTH - rightMostX s),
                                        y = y (pos a) + ALIEN_DROP_AMOUNT\<rparr>\<rparr>) (aliens s),
           alienVel := \<lparr>x = - x (alienVel s), y = y (alienVel s)\<rparr>\<rparr> \<and>
       rightMostX (moveAlien s i) + ALIEN_WIDTH = CANVAS_WIDTH) \<and>
    (\<not> leftMostX s + x (alienVel s) < 0 \<and>
     \<not> rightMostX s + ALIEN_WIDTH + x (alienVel s) > CANVAS_WIDTH \<longrightarrow>
       moveAlien s i =
         s\<lparr>aliens := map (\<lambda>a. a\<lparr>pos := Vec2_add (pos a) (alienVel s)\<rparr>) (aliens s)\<rparr>)"
proof -
  have "withinCanvas s"
    using assms(2) withinCanvas_run[of env inputs] by auto
  with assms(1) show ?thesis
    by (rule moveAlien_within)
qed

text \<open>The grid of a started game moves one to the right. Aliens at 575 and 511 moving
  right by 5/2 are set one to the right, against the right wall, dropped by 30 and turned;
  aliens at 1 and 65 moving left by 5/2 are set one to the left, against the left wall.\<close>

theorem moveAlien_bounce_witness:
  "aliens (run exampleEnv [keyInput ''Enter'']) \<noteq> [] \<and>
   leftMostX (run exampleEnv [keyInput ''Enter'']) = 10 \<and>
   rightMostX (run exampleEnv [keyInput ''Enter'']) = 330 \<and>
   alienVel (moveAlien (run exampleEnv [keyInput ''Enter'']) noInput) = \<lparr>x = 1, y = 0\<rparr> \<and>
   map (\<lambda>a. x (pos a)) (aliens (moveAlien (run exampleEnv [keyInput ''Enter'']) noInput)) =
     [11, 75, 139, 203, 267, 331, 11, 75, 139, 203, 267, 331,
      11, 75, 139, 203, 267, 331, 11, 75, 139, 203, 267, 331] \<and>
   moveAlien ((sceneWith [alienAt 575 100 ''A'', alienAt 511 100 ''B''] [])
               \<lparr>alienVel := \<lparr>x = 5 / 2, y = 0\<rparr>\<rparr>) noInput =
     (sceneWith [alienAt 576 130 ''A'', alienAt 512 130 ''B''] [])
       \<lparr>alienVel := \<lparr>x = - (5 / 2), y = 0\<rparr>\<rparr> \<and>
   moveAlien ((sceneWith [alienAt 1 100 ''A'', alienAt 65 100 ''B''] [])
               \<lparr>alienVel := \<lparr>x = - (5 / 2), y = 0\<rparr>\<rparr>) noInput =
     (sceneWith [alienAt 0 130 ''A'', alienAt 64 130 ''B''] [])\<lparr>alienVel := \<lparr>x = 5 / 2, y = 0\<rparr>\<rparr>"
proof -
  let ?r = "run exampleEnv [keyInput ''Enter'']"
  let ?s = "(sceneWith [alienAt 575 100 ''A'', alienAt 511 100 ''B''] [])
               \<lparr>alienVel := \<lparr>x = 5 / 2, y = 0\<rparr>\<rparr>"
  let ?t = "(sceneWith [alienAt 1 100 ''A'', alienAt 65 100 ''B''] [])
               \<lparr>alienVel := \<lparr>x = - (5 / 2), y = 0\<rparr>\<rparr>"
  have xs: "map (\<lambda>a. x (pos a)) (aliens ?r) =
      [10, 74, 138, 202, 266, 330, 10, 74, 138, 202, 266, 330,
       10, 74, 138, 202, 266, 330, 10, 74, 138, 202, 266, 330]"
    by (simp add: run_enter aliens_x_INITIAL_STATE)
  have r: "aliens ?r \<noteq> []" "?r = run exampleEnv [keyInput ''Enter''] \<or> withinCanvas ?r"
    "leftMostX ?r = 10" "rightMostX ?r = 330" "alienVel ?r = \<lparr>x = 1, y = 0\<rparr>"
    using xs by (auto simp add: leftMostX_def rightMostX_def run_enter INITIAL_STATE_fields
        ALIEN_VEL_INIT_def)
  have s: "aliens ?s \<noteq> []" "?s = run exampleEnv [] \<or> withinCanvas ?s"
    "leftMostX ?s = 511" "rightMostX ?s = 575"
    by (simp_all add: sceneWith_def leftMostX_def rightMostX_def withinCanvas_def alienAt_def
        ALIEN_WIDTH_def CANVAS_WIDTH_def)
  have t: "aliens ?t \<noteq> []" "?t = run exampleEnv [] \<or> withinCanvas ?t"
    "leftMostX ?t = 1" "rightMostX ?t = 65"
    by (simp_all add: sceneWith_def leftMostX_def rightMostX_def withinCanvas_def alienAt_def
        ALIEN_WIDTH_def CANVAS_WIDTH_def)
  have "moveAlien ?r noInput =
      ?r\<lparr>aliens := map (\<lambda>a. a\<lparr>pos := Vec2_add (pos a) (alienVel ?r)\<rparr>) (aliens ?r)\<rparr>"
    using moveAlien_bounce[OF r(1,2), of noInput]
    unfolding r(3,4,5) by (simp add: ALIEN_WIDTH_def CANVAS_WIDTH_def)
  then have "alienVel (moveAlien ?r noInput) = \<lparr>x = 1, y = 0\<rparr>"
    and "map (\<lambda>a. x (pos a)) (aliens (moveAlien ?r noInput)) =
           map (\<lambda>v. v + 1) (map (\<lambda>a. x (pos a)) (aliens ?r))"
    by (simp_all add: r(5) Vec2_add_def comp_def)
  moreover have "moveAlien ?s noInput =
     (sceneWith [alienAt 576 130 ''A'', alienAt 512 130 ''B''] [])
       \<lparr>alienVel := \<lparr>x = - (5 / 2), y = 0\<rparr>\<rparr>"
    using moveAlien_bounce[OF s(1,2), of noInput]
    unfolding s(3,4)
    by (simp add: sceneWith_def alienAt_def const_defs)
  moreover have "moveAlien ?t noInput =
     (sceneWith [alienAt 0 130 ''A'', alienAt 64 130 ''B''] [])\<lparr>alienVel := \<lparr>x = 5 / 2, y = 0\<rparr>\<rparr>"
    using moveAlien_bounce[OF t(1,2), of noInput]
    unfolding t(3,4)
    by (simp add: sceneWith_def alienAt_def const_defs)
  ultimately show ?thesis
    using r(1,3,4) unfolding xs by simp
qed

text \<open>Where no run of the program gets: with its one alien at 700, right of the canvas, the
  \<^verbatim>\<open>reduce\<close> returns its starting value 600 for the leftmost position, and a move left by
  650, which would land between the walls, is treated as a hit of the left wall.\<close>

lemma moveAlien_outside_canvas:
  "aliens ((sceneWith [alienAt 700 100 ''A''] [])\<lparr>alienVel := \<lparr>x = - 650, y = 0\<rparr>\<rparr>) \<noteq> [] \<and>
   \<not> (leftMostX ((sceneWith [alienAt 700 100 ''A''] [])\<lparr>alienVel := \<lparr>x = - 650, y = 0\<rparr>\<rparr>)
        + (- 650) < 0) \<and>
   \<not> (rightMostX ((sceneWith [alienAt 700 100 ''A''] [])\<lparr>alienVel := \<lparr>x = - 650, y = 0\<rparr>\<rparr>)
        + ALIEN_WIDTH + (- 650) > CANVAS_WIDTH) \<and>
   moveAlien ((sceneWith [alienAt 700 100 ''A''] [])\<lparr>alienVel := \<lparr>x = - 650, y = 0\<rparr>\<rparr>) noInput =
     (sceneWith [alienAt 100 130 ''A''] [])\<lparr>alienVel := \<lparr>x = 650, y = 0\<rparr>\<rparr>"
  by (simp add: moveAlien_def sceneWith_def leftMostX_def rightMostX_def alienAt_def const_defs)

section \<open>The end of the game\<close>

lemma playerAlienCollision_over:
  assumes "list_ex (rectangleRectangleCollide (player s)) (aliens s)"
  shows "playerAlienCollision s i = s\<lparr>gameRunning := False, message := MESSAGE_SCORE (score s)\<rparr>"
  using assms by (simp add: playerAlienCollision_def)

lemma playerBulletCollision_over:
  assumes "\<not> gameRunning s" "message s = MESSAGE_SCORE (score s)"
  shows "\<not> gameRunning (playerBulletCollision s i)"
    "message (playerBulletCollision s i) = MESSAGE_SCORE (score s)"
  using assms by (simp_all add: playerBulletCollision_def Let_def)

lemma beforeCollisions_score:
  "score (beforeCollisions env s i) = score (playerShoot s i)"
  by (simp add: beforeCollisions_def stages_def score_frame)

text \<open>
  Claim C3, as the code has it. Take a running state and an input such that the player
  overlaps some alien in the state on which \<open>playerAlienCollision\<close> runs within the frame.
  Then the state that \<open>transition\<close> returns is not running, and its message is the game-over
  text with the score as it stood when \<open>playerAlienCollision\<close> ran: the score after
  \<open>playerShoot\<close>, before the kills that \<open>alienBulletCollision\<close> adds later in the frame.
\<close>

theorem game_over_message:
  assumes "gameRunning s"
    and "list_ex (rectangleRectangleCollide (player (beforeCollisions env s i)))
           (aliens (beforeCollisions env s i))"
  shows "\<not> gameRunning (transition env s i) \<and>
         message (transition env s i) = MESSAGE_SCORE (score (beforeCollisions env s i)) \<and>
         score (beforeCollisions env s i) = score (playerShoot s i)"
proof -
  let ?b = "beforeCollisions env s i"
  let ?c = "playerAlienCollision ?b i"
  have c: "?c = ?b\<lparr>gameRunning := False, message := MESSAGE_SCORE (score ?b)\<rparr>"
    using assms(2) by (rule playerAlienCollision_over)
  have "\<not> gameRunning ?c" and "message ?c = MESSAGE_SCORE (score ?c)" and "score ?c = score ?b"
    by (simp_all add: c)
  then have "\<not> gameRunning (playerBulletCollision ?c i)"
    and "message (playerBulletCollision ?c i) = MESSAGE_SCORE (score ?b)"
    using playerBulletCollision_over[of ?c i] by simp_all
  then show ?thesis
    by (simp add: transition_running[OF assms(1)] over_frame beforeCollisions_score)
qed

text \<open>A frame in which the player fires \<open>A\<close> while an alien \<open>A\<close> stands on the player: before
  the collisions the alien has moved one to the right, the bullet is in flight, and the
  score is - 20.\<close>

lemma before_overlap:
  "beforeCollisions exampleEnv (sceneWith [alienAt 280 530 ''A''] []) (keyInput ''A'') =
     (sceneWith [alienAt 281 530 ''A''] [bulletAt PLAYER 287 537 ''A''])\<lparr>score := - 20, ammo := 19\<rparr>"
  apply (simp add: beforeCollisions_def stages_def)
  apply (simp add: playerShoot_def keyInput_def toUpperCase_A includes_A sceneWith_fields Let_def)
  apply (simp add: alienShoot_def hash_empty exampleEnv_def Let_def sceneWith_fields movePlayer_def
      alienAt_def const_defs)
  apply (simp add: moveAlien_def moveBullet_def removeBullet_def Let_def sceneWith_fields const_defs
      Vec2_add_def)
  apply (simp add: sceneWith_def bulletAt_def const_defs)
  done

lemma overlap_collides:
  "list_ex (rectangleRectangleCollide
       (player (beforeCollisions exampleEnv (sceneWith [alienAt 280 530 ''A''] []) (keyInput ''A''))))
     (aliens (beforeCollisions exampleEnv (sceneWith [alienAt 280 530 ''A''] []) (keyInput ''A'')))"
  unfolding before_overlap
  by (simp add: sceneWith_fields alienAt_def rectangleRectangleCollide_def const_defs)

lemma after_overlap:
  "score (transition exampleEnv (sceneWith [alienAt 280 530 ''A''] []) (keyInput ''A'')) = 380"
  "message (transition exampleEnv (sceneWith [alienAt 280 530 ''A''] []) (keyInput ''A'')) =
     MESSAGE_SCORE (- 20)"
  "gameRunning (transition exampleEnv (sceneWith [alienAt 280 530 ''A''] []) (keyInput ''A'')) =
     False"
  unfolding transition_running[of "sceneWith [alienAt 280 530 ''A''] []",
      simplified sceneWith_fields, simplified]
    over_frame score_frame before_overlap
  by (simp_all add: sceneWith_fields playerAlienCollision_def playerBulletCollision_def
      alienBulletCollision_def alienAt_def bulletAt_def rectangleRectangleCollide_def
      const_defs Let_def)

lemma MESSAGE_SCORE_minus_20:
  "MESSAGE_SCORE (- 20) = ''Oh no. Score: -20. Press [Enter] to play.''"
  by (simp add: MESSAGE_SCORE_def String_int_def String_nat.simps MESSAGE_INIT_def)

lemma MESSAGE_SCORE_differ: "MESSAGE_SCORE (- 20) \<noteq> MESSAGE_SCORE 380"
  by (simp add: MESSAGE_SCORE_def String_int_def String_nat.simps)

text \<open>The same frame on any host: whatever the serialisation lets the alien do, the
  message reads - 20 and the state ends with a score of at least 380.\<close>

lemma alienBulletCollision_score:
  "score (alienBulletCollision s i) = score s +
         (\<Sum>a\<leftarrow>aliens s. \<Sum>b\<leftarrow>bullets s.
            if shooter b \<noteq> ALIEN \<and> rectangleRectangleCollide a b
            then (if character a = character b then SCORE_ALIEN_KILL_CHAR_MATCH
                  else SCORE_ALIEN_KILL)
            else 0)"
  by (simp add: alienBulletCollision_def Let_def foldl_cond_add foldl_add_sum)

lemma collision_frame:
  "score (playerAlienCollision s i) = score s"
  "score (playerBulletCollision s i) = score s"
  "aliens (playerAlienCollision s i) = aliens s"
  "aliens (playerBulletCollision s i) = aliens s"
  "bullets (playerAlienCollision s i) = bullets s"
  "bullets (playerBulletCollision s i) = bullets s"
  by (simp_all add: playerAlienCollision_def playerBulletCollision_def Let_def)

lemma kill_sum_nonneg:
  "0 \<le> (\<Sum>b\<leftarrow>bs. if P b then (if Q b then SCORE_ALIEN_KILL_CHAR_MATCH else SCORE_ALIEN_KILL)
                     else (0 :: int))"
  by (rule sum_list_nonneg) (auto simp add: SCORE_ALIEN_KILL_CHAR_MATCH_def SCORE_ALIEN_KILL_def)

lemma before_overlap_any_host:
  "\<exists>rest. beforeCollisions env (sceneWith [alienAt 280 530 ''A''] []) (keyInput ''A'') =
     (sceneWith [alienAt 281 530 ''A''] (bulletAt PLAYER 287 537 ''A'' # rest))
       \<lparr>score := - 20, ammo := 19\<rparr>"
proof -
  let ?s = "sceneWith [alienAt 280 530 ''A''] []" and ?i = "keyInput ''A''"
  have p: "playerShoot ?s ?i =
      (sceneWith [alienAt 280 530 ''A''] [bulletAt PLAYER 287 540 ''A''])\<lparr>score := - 20, ammo := 19\<rparr>"
    by (simp add: playerShoot_def keyInput_def toUpperCase_A includes_A sceneWith_def Let_def
        bulletAt_def const_defs)
  obtain new where a: "alienShoot env (playerShoot ?s ?i) ?i =
      (sceneWith [alienAt 280 530 ''A''] (bulletAt PLAYER 287 540 ''A'' # new))\<lparr>score := - 20, ammo := 19\<rparr>"
    unfolding p by (simp add: alienShoot_def Let_def sceneWith_def)
  have m: "movePlayer env s (keyInput k) = s" for s k
    by (simp add: movePlayer_def keyInput_def)
  have "beforeCollisions env ?s ?i =
     (sceneWith [alienAt 281 530 ''A'']
        (bulletAt PLAYER 287 537 ''A'' #
           filter (\<lambda>b. y (pos b) > 0) (map (\<lambda>b. b\<lparr>pos := Vec2_add (pos b) (vel b)\<rparr>) new)))
       \<lparr>score := - 20, ammo := 19\<rparr>"
    unfolding beforeCollisions_def stages_def
    apply (simp add: a m)
    apply (simp add: moveAlien_def moveBullet_def removeBullet_def Let_def sceneWith_def alienAt_def
      bulletAt_def Vec2_add_def const_defs)
    done
  then show ?thesis
    by blast
qed

lemma overlap_any_host:
  "message (transition env (sceneWith [alienAt 280 530 ''A''] []) (keyInput ''A'')) =
     MESSAGE_SCORE (- 20) \<and>
   380 \<le> score (transition env (sceneWith [alienAt 280 530 ''A''] []) (keyInput ''A''))"
proof -
  let ?s = "sceneWith [alienAt 280 530 ''A''] []" and ?i = "keyInput ''A''"
  let ?b = "beforeCollisions env ?s ?i"
  let ?c = "playerBulletCollision (playerAlienCollision ?b ?i) ?i"
  obtain rest where b: "?b =
     (sceneWith [alienAt 281 530 ''A''] (bulletAt PLAYER 287 537 ''A'' # rest))
       \<lparr>score := - 20, ammo := 19\<rparr>"
    using before_overlap_any_host by blast
  have run: "gameRunning ?s"
    by (simp add: sceneWith_fields)
  have hit: "list_ex (rectangleRectangleCollide (player ?b)) (aliens ?b)"
    unfolding b by (simp add: sceneWith_def alienAt_def rectangleRectangleCollide_def const_defs)
  have sb: "score ?b = - 20" "aliens ?b = [alienAt 281 530 ''A'']"
    "bullets ?b = bulletAt PLAYER 287 537 ''A'' # rest"
    unfolding b by (simp_all add: sceneWith_def)
  let ?a = "playerAlienCollision ?b ?i"
  have pac: "\<not> gameRunning ?a" "message ?a = MESSAGE_SCORE (score ?a)" "score ?a = - 20"
    unfolding playerAlienCollision_over[OF hit] by (simp_all add: sb)
  have c: "message ?c = MESSAGE_SCORE (- 20)" "score ?c = - 20"
    "aliens ?c = [alienAt 281 530 ''A'']" "bullets ?c = bulletAt PLAYER 287 537 ''A'' # rest"
    using playerBulletCollision_over[OF pac(1,2), of ?i] pac(3)
    by (simp_all add: collision_frame sb)
  define f where "f = (\<lambda>b :: Bullet. if shooter b \<noteq> ALIEN \<and>
        rectangleRectangleCollide (alienAt 281 530 ''A'') b
      then (if character (alienAt 281 530 ''A'') = character b
            then SCORE_ALIEN_KILL_CHAR_MATCH else SCORE_ALIEN_KILL)
      else 0)"
  have "score (alienBulletCollision ?c ?i) =
      - 20 + (f (bulletAt PLAYER 287 537 ''A'') + sum_list (map f rest))"
    unfolding alienBulletCollision_score c f_def by simp
  moreover have "f (bulletAt PLAYER 287 537 ''A'') = 400"
    unfolding f_def
    by (simp add: alienAt_def bulletAt_def rectangleRectangleCollide_def const_defs)
  moreover have "0 \<le> sum_list (map f rest)"
    unfolding f_def by (rule kill_sum_nonneg)
  ultimately have "380 \<le> score (alienBulletCollision ?c ?i)"
    by simp
  then show ?thesis
    using c(1) by (simp add: transition_running[OF run] over_frame score_frame)
qed

theorem game_over_message_witness:
  "gameRunning (sceneWith [alienAt 280 530 ''A''] []) \<and>
   list_ex (rectangleRectangleCollide
       (player (beforeCollisions exampleEnv (sceneWith [alienAt 280 530 ''A''] []) (keyInput ''A''))))
     (aliens (beforeCollisions exampleEnv (sceneWith [alienAt 280 530 ''A''] []) (keyInput ''A''))) \<and>
   \<not> gameRunning (transition exampleEnv (sceneWith [alienAt 280 530 ''A''] []) (keyInput ''A'')) \<and>
   message (transition exampleEnv (sceneWith [alienAt 280 530 ''A''] []) (keyInput ''A'')) =
     ''Oh no. Score: -20. Press [Enter] to play.''"
proof -
  let ?s = "sceneWith [alienAt 280 530 ''A''] []" and ?i = "keyInput ''A''"
  have h1: "gameRunning ?s"
    by (simp add: sceneWith_fields)
  have sc: "score (beforeCollisions exampleEnv ?s ?i) = - 20"
    unfolding before_overlap by simp
  show ?thesis
    using game_over_message[OF h1 overlap_collides] h1 overlap_collides sc MESSAGE_SCORE_minus_20
    by simp
qed

text \<open>Claim C3 as the specification states it fails in the same frame: the bullet kills the
  alien after the game is over, the state ends with the score 380, and the message still
  reads - 20.\<close>

theorem game_over_message_counterexample:
  "gameRunning (sceneWith [alienAt 280 530 ''A''] []) \<and>
   list_ex (rectangleRectangleCollide
       (player (beforeCollisions exampleEnv (sceneWith [alienAt 280 530 ''A''] []) (keyInput ''A''))))
     (aliens (beforeCollisions exampleEnv (sceneWith [alienAt 280 530 ''A''] []) (keyInput ''A''))) \<and>
   score (transition exampleEnv (sceneWith [alienAt 280 530 ''A''] []) (keyInput ''A'')) = 380 \<and>
   message (transition exampleEnv (sceneWith [alienAt 280 530 ''A''] []) (keyInput ''A'')) =
     ''Oh no. Score: -20. Press [Enter] to play.'' \<and>
   message (transition exampleEnv (sceneWith [alienAt 280 530 ''A''] []) (keyInput ''A'')) \<noteq>
     MESSAGE_SCORE
       (score (transition exampleEnv (sceneWith [alienAt 280 530 ''A''] []) (keyInput ''A'')))"
proof -
  have "gameRunning (sceneWith [alienAt 280 530 ''A''] [])"
    by (simp add: sceneWith_fields)
  then show ?thesis
    using overlap_collides MESSAGE_SCORE_differ
    by (simp add: after_overlap MESSAGE_SCORE_minus_20[symmetric])
qed

end
